theory Spec2Isabelle
  imports Main
begin

section \<open>Values of a parsed profile document\<close>

text \<open>
  \<^verbatim>\<open>generate.py\<close> works on whatever \<^verbatim>\<open>yaml.safe_load\<close> returns: nested Python
  dictionaries, lists and scalars, with no schema. The model keeps that dynamic shape.
  A dictionary is an association list read through \<open>map_of\<close> (keys are distinct in a
  Python dict; every key the program looks up is a string, so only string keys are kept).
  Floating-point numbers, dates and binary scalars are outside the model. A
  \<open>char\<close> stands for one character of a Python \<^verbatim>\<open>str\<close>.
\<close>

datatype pyval =
    PNone
  | PBool bool
  | PInt int
  | PStr string
  | PList "pyval list"
  | PDict "(string \<times> pyval) list"

text \<open>The exceptions the program can raise, as values.\<close>

datatype error =
    KeyError string
  | TypeError
  | AttributeError
  | FileNotFoundError
  | YAMLError

text \<open>\<^verbatim>\<open>x[k]\<close> with a string key: only a dict can be subscripted by a string.\<close>

fun subscript :: "pyval \<Rightarrow> string \<Rightarrow> error + pyval" where
  "subscript (PDict d) k = (case map_of d k of None \<Rightarrow> Inl (KeyError k) | Some v \<Rightarrow> Inr v)"
| "subscript _ k = Inl TypeError"

text \<open>\<^verbatim>\<open>x[k1][k2]\<close>.\<close>

definition subscript2 :: "pyval \<Rightarrow> string \<Rightarrow> string \<Rightarrow> error + pyval" where
  "subscript2 x k1 k2 = (case subscript x k1 of Inl e \<Rightarrow> Inl e | Inr y \<Rightarrow> subscript y k2)"

text \<open>\<^verbatim>\<open>x.get(k, default)\<close>: only a dict has the method.\<close>

fun dict_get :: "pyval \<Rightarrow> string \<Rightarrow> pyval \<Rightarrow> error + pyval" where
  "dict_get (PDict d) k dflt = Inr (case map_of d k of None \<Rightarrow> dflt | Some v \<Rightarrow> v)"
| "dict_get _ k dflt = Inl AttributeError"

text \<open>Truth value of an object in a condition.\<close>

fun truthy :: "pyval \<Rightarrow> bool" where
  "truthy PNone = False"
| "truthy (PBool b) = b"
| "truthy (PInt i) = (i \<noteq> 0)"
| "truthy (PStr s) = (s \<noteq> [])"
| "truthy (PList xs) = (xs \<noteq> [])"
| "truthy (PDict d) = (d \<noteq> [])"

text \<open>
  Iteration (\<^verbatim>\<open>for r in x\<close>, and the argument of \<^verbatim>\<open>str.join\<close>): a list yields its
  elements, a string its characters, a dict its keys; nothing else is iterable.
\<close>

fun py_iter :: "pyval \<Rightarrow> error + pyval list" where
  "py_iter (PList xs) = Inr xs"
| "py_iter (PStr s) = Inr (map (\<lambda>c. PStr [c]) s)"
| "py_iter (PDict d) = Inr (map (\<lambda>kv. PStr (fst kv)) d)"
| "py_iter _ = Inl TypeError"

subsection \<open>Formatting\<close>

function dec_nat :: "nat \<Rightarrow> string" where
  "dec_nat n =
     (if n < 10 then [''0123456789'' ! n]
      else dec_nat (n div 10) @ [''0123456789'' ! (n mod 10)])"
  by pat_completeness auto
termination
  by (relation "measure id") auto

declare dec_nat.simps [simp del]

definition dec_int :: "int \<Rightarrow> string" where
  "dec_int i = (if i < 0 then ''-'' @ dec_nat (nat (- i)) else dec_nat (nat i))"

text \<open>
  What an f-string field \<^verbatim>\<open>{v}\<close> inserts, that is \<^verbatim>\<open>str(v)\<close>. For a list or a dict
  Python inserts its \<^verbatim>\<open>repr\<close>, which is the runtime's and not this program's: it is
  the parameter \<open>repr\<close> of every function below.
\<close>

fun py_str :: "(pyval \<Rightarrow> string) \<Rightarrow> pyval \<Rightarrow> string" where
  "py_str repr (PStr s) = s"
| "py_str repr (PInt i) = dec_int i"
| "py_str repr (PBool b) = (if b then ''True'' else ''False'')"
| "py_str repr PNone = ''None''"
| "py_str repr v = repr v"

text \<open>\<^verbatim>\<open>sep.join(items)\<close> on strings.\<close>

fun join_strs :: "string \<Rightarrow> string list \<Rightarrow> string" where
  "join_strs sep [] = []"
| "join_strs sep [x] = x"
| "join_strs sep (x # y # zs) = x @ sep @ join_strs sep (y # zs)"

fun is_str :: "pyval \<Rightarrow> bool" where
  "is_str (PStr s) = True"
| "is_str _ = False"

fun the_str :: "pyval \<Rightarrow> string" where
  "the_str (PStr s) = s"
| "the_str _ = []"

text \<open>
  \<^verbatim>\<open>sep.join(v)\<close> on an arbitrary object: \<^verbatim>\<open>TypeError\<close> when \<open>v\<close> is not iterable or
  one of its items is not a string.
\<close>

definition str_join :: "string \<Rightarrow> pyval \<Rightarrow> error + string" where
  "str_join sep v =
     (case py_iter v of
        Inl e \<Rightarrow> Inl TypeError
      | Inr items \<Rightarrow>
          if list_all is_str items then Inr (join_strs sep (map the_str items))
          else Inl TypeError)"

section \<open>The environment: files and standard output\<close>

text \<open>
  The files are a map from path to content, and standard output is the list of the
  arguments of the \<^verbatim>\<open>print\<close> calls so far. \<^verbatim>\<open>open(path, "w")\<close> followed by
  \<^verbatim>\<open>f.write(text)\<close> replaces the content at the path. Directory creation
  (\<^verbatim>\<open>os.makedirs(..., exist_ok=True)\<close>) and the write itself are taken to succeed.
\<close>

record world =
  files :: "string \<rightharpoonup> string"
  stdout :: "string list"

definition write_file :: "string \<Rightarrow> string \<Rightarrow> world \<Rightarrow> world" where
  "write_file path text w = w\<lparr>files := (files w)(path \<mapsto> text)\<rparr>"

definition print :: "string \<Rightarrow> world \<Rightarrow> world" where
  "print line w = w\<lparr>stdout := stdout w @ [line]\<rparr>"

section \<open>load_profile\<close>

text \<open>
  \<^verbatim>\<open>open(path, "r")\<close> raises when there is no file at the path;
  \<^verbatim>\<open>yaml.safe_load\<close> is the library's parser, the parameter \<open>safe_load\<close>, which
  returns \<open>None\<close> where the library raises on a malformed document.
\<close>

definition load_profile :: "(string \<Rightarrow> pyval option) \<Rightarrow> string \<Rightarrow> world \<Rightarrow> error + pyval" where
  "load_profile safe_load path w =
     (case files w path of
        None \<Rightarrow> Inl FileNotFoundError
      | Some text \<Rightarrow>
          (case safe_load text of
             None \<Rightarrow> Inl YAMLError
           | Some doc \<Rightarrow> Inr doc))"

section \<open>generate_dockerfile\<close>

definition bs :: string where
  "bs = [CHR 0x5C]"

definition dockerfile :: "string \<Rightarrow> string \<Rightarrow> string" where
  \<open>dockerfile base_image pkg_list = concat [
     ''FROM '', base_image, ''\<newline>'',
     ''\<newline>'',
     ''RUN apt-get update && '', bs, ''\<newline>'',
     ''    apt-get install -y '', pkg_list, '' && '', bs, ''\<newline>'',
     ''    rm -rf /var/lib/apt/lists/*\<newline>'',
     ''\<newline>'',
     ''CMD ["/bin/sh", "-c", "while true; do sleep 3600; done"]\<newline>'']\<close>

definition generate_dockerfile ::
    "(pyval \<Rightarrow> string) \<Rightarrow> pyval \<Rightarrow> world \<Rightarrow> world \<times> (error + unit)" where
  "generate_dockerfile repr profile w =
     (case subscript2 profile ''os'' ''distro'' of Inl e \<Rightarrow> (w, Inl e) | Inr distro \<Rightarrow>
      case subscript2 profile ''os'' ''version'' of Inl e \<Rightarrow> (w, Inl e) | Inr version \<Rightarrow>
      case subscript profile ''packages'' of Inl e \<Rightarrow> (w, Inl e) | Inr packages \<Rightarrow>
      let base_image = py_str repr distro @ '':'' @ py_str repr version in
      case str_join '' '' packages of Inl e \<Rightarrow> (w, Inl e) | Inr pkg_list \<Rightarrow>
      let w = write_file ''generated/Dockerfile'' (dockerfile base_image pkg_list) w;
          w = print ''[OK] Dockerfile generated -> generated/Dockerfile'' w
      in (w, Inr ()))"

section \<open>generate_network_policies\<close>

text \<open>
  The comprehension \<^verbatim>\<open>[r for r in rules if r["direction"] == d]\<close>, over the items
  the iteration yields: the first item that cannot be subscripted, or has no
  \<^verbatim>\<open>direction\<close>, raises.
\<close>

fun select_direction :: "string \<Rightarrow> pyval list \<Rightarrow> error + pyval list" where
  "select_direction d [] = Inr []"
| "select_direction d (r # rs) =
     (case subscript r ''direction'' of
        Inl e \<Rightarrow> Inl e
      | Inr v \<Rightarrow>
          (case select_direction d rs of
             Inl e \<Rightarrow> Inl e
           | Inr keep \<Rightarrow> Inr (if v = PStr d then r # keep else keep)))"

definition rules_of_direction :: "string \<Rightarrow> pyval \<Rightarrow> error + pyval list" where
  "rules_of_direction d rules =
     (case py_iter rules of Inl e \<Rightarrow> Inl e | Inr rs \<Rightarrow> select_direction d rs)"

text \<open>
  One allow entry, as the two f-strings of the loops write it; \<open>peer\<close> is \<^verbatim>\<open>from\<close>
  in the ingress loop and \<^verbatim>\<open>to\<close> in the egress loop.
\<close>

definition allow_entry :: "string \<Rightarrow> string \<Rightarrow> string \<Rightarrow> string \<Rightarrow> string" where
  "allow_entry peer ns protocol port = concat [
     ''  - '', peer, '':\<newline>'',
     ''    - namespaceSelector:\<newline>'',
     ''        matchLabels:\<newline>'',
     ''          kubernetes.io/metadata.name: '', ns, ''\<newline>'',
     ''    ports:\<newline>'',
     ''    - protocol: '', protocol, ''\<newline>'',
     ''      port: '', port, ''\<newline>'']"

text \<open>
  The body of \<^verbatim>\<open>for rule in ingress_rules\<close> (and of the egress loop, with \<^verbatim>\<open>to\<close>),
  appending to the block built so far.
\<close>

fun entries_loop ::
    "(pyval \<Rightarrow> string) \<Rightarrow> string \<Rightarrow> pyval list \<Rightarrow> string \<Rightarrow> error + string" where
  "entries_loop repr peer [] block = Inr block"
| "entries_loop repr peer (rule # rest) block =
     (case dict_get rule peer (PDict []) of Inl e \<Rightarrow> Inl e | Inr p \<Rightarrow>
      case dict_get p ''namespace'' (PStr []) of Inl e \<Rightarrow> Inl e | Inr ns \<Rightarrow>
      case subscript rule ''protocol'' of Inl e \<Rightarrow> Inl e | Inr protocol \<Rightarrow>
      case subscript rule ''port'' of Inl e \<Rightarrow> Inl e | Inr port \<Rightarrow>
      entries_loop repr peer rest
        (block @ allow_entry peer (py_str repr ns) (py_str repr protocol) (py_str repr port)))"

text \<open>\<^verbatim>\<open>if ingress_rules: ... else: ingress_block = "  ingress: []\n"\<close>, for either direction.\<close>

definition build_block ::
    "(pyval \<Rightarrow> string) \<Rightarrow> string \<Rightarrow> string \<Rightarrow> pyval list \<Rightarrow> error + string" where
  "build_block repr direction peer rules =
     (if rules \<noteq> [] then entries_loop repr peer rules (''  '' @ direction @ '':\<newline>'')
      else Inr (''  '' @ direction @ '': []\<newline>''))"

definition networkpolicy_yaml :: "string \<Rightarrow> string \<Rightarrow> string \<Rightarrow> string" where
  "networkpolicy_yaml policy_types_str ingress_block egress_block = concat [
     ''# Policy 1: Default Deny\<newline>'',
     ''apiVersion: networking.k8s.io/v1\<newline>'',
     ''kind: NetworkPolicy\<newline>'',
     ''metadata:\<newline>'',
     ''  name: default-deny\<newline>'',
     ''  namespace: {{ .Values.namespace }}\<newline>'',
     ''spec:\<newline>'',
     ''  podSelector: {}\<newline>'',
     ''  policyTypes:\<newline>'',
     policy_types_str, ''\<newline>'',
     ''---\<newline>'',
     ''# Policy 2: Allow exceptions\<newline>'',
     ''apiVersion: networking.k8s.io/v1\<newline>'',
     ''kind: NetworkPolicy\<newline>'',
     ''metadata:\<newline>'',
     ''  name: {{ .Values.app.name }}-allow\<newline>'',
     ''  namespace: {{ .Values.namespace }}\<newline>'',
     ''spec:\<newline>'',
     ''  podSelector:\<newline>'',
     ''    matchLabels:\<newline>'',
     ''      app: {{ .Values.app.name }}\<newline>'',
     ''  policyTypes:\<newline>'',
     policy_types_str, ''\<newline>'',
     ingress_block, egress_block]"

text \<open>The list \<^verbatim>\<open>policy_types\<close> after the two conditional appends.\<close>

definition policy_types :: "pyval \<Rightarrow> pyval \<Rightarrow> string list" where
  "policy_types deny_ingress deny_egress =
     (let policy_types = [];
          policy_types = (if truthy deny_ingress then policy_types @ [''Ingress''] else policy_types);
          policy_types = (if truthy deny_egress then policy_types @ [''Egress''] else policy_types)
      in policy_types)"

text \<open>\<^verbatim>\<open>"\n".join([f"  - {pt}" for pt in policy_types])\<close>.\<close>

definition policy_types_str :: "string list \<Rightarrow> string" where
  "policy_types_str pts = join_strs ''\<newline>'' (map (\<lambda>pt. ''  - '' @ pt) pts)"

definition generate_network_policies ::
    "(pyval \<Rightarrow> string) \<Rightarrow> pyval \<Rightarrow> pyval \<Rightarrow> world \<Rightarrow> world \<times> (error + unit)" where
  "generate_network_policies repr profile name w =
     (case subscript profile ''network'' of Inl e \<Rightarrow> (w, Inl e) | Inr network \<Rightarrow>
      case dict_get network ''rules'' (PList []) of Inl e \<Rightarrow> (w, Inl e) | Inr rules \<Rightarrow>
      case rules_of_direction ''ingress'' rules of Inl e \<Rightarrow> (w, Inl e) | Inr ingress_rules \<Rightarrow>
      case rules_of_direction ''egress'' rules of Inl e \<Rightarrow> (w, Inl e) | Inr egress_rules \<Rightarrow>
      case build_block repr ''ingress'' ''from'' ingress_rules of Inl e \<Rightarrow> (w, Inl e) | Inr ingress_block \<Rightarrow>
      case build_block repr ''egress'' ''to'' egress_rules of Inl e \<Rightarrow> (w, Inl e) | Inr egress_block \<Rightarrow>
      case dict_get network ''default_deny_ingress'' PNone of Inl e \<Rightarrow> (w, Inl e) | Inr deny_ingress \<Rightarrow>
      case dict_get network ''default_deny_egress'' PNone of Inl e \<Rightarrow> (w, Inl e) | Inr deny_egress \<Rightarrow>
      let policy_types_str = policy_types_str (policy_types deny_ingress deny_egress);
          w = write_file ''generated/helm/templates/networkpolicy.yaml''
                (networkpolicy_yaml policy_types_str ingress_block egress_block) w;
          w = print ''[OK] networkpolicy.yaml generated'' w
      in (w, Inr ()))"

section \<open>generate_helm\<close>

definition chart_yaml :: "string \<Rightarrow> string \<Rightarrow> string" where
  \<open>chart_yaml name prof_ver = concat [
     ''apiVersion: v2\<newline>'',
     ''name: '', name, ''\<newline>'',
     ''description: Auto-generated chart for profile '', name, ''\<newline>'',
     ''type: application\<newline>'',
     ''version: "'', prof_ver, ''"\<newline>'',
     ''appVersion: "'', prof_ver, ''"\<newline>'']\<close>

definition values_yaml :: "string \<Rightarrow> string \<Rightarrow> string" where
  \<open>values_yaml name image_tag = concat [
     ''replicaCount: 1\<newline>'',
     ''\<newline>'',
     ''image:\<newline>'',
     ''  repository: YOUR_DOCKERHUB_USERNAME/'', name, ''\<newline>'',
     ''  tag: "'', image_tag, ''"\<newline>'',
     ''  pullPolicy: IfNotPresent\<newline>'',
     ''\<newline>'',
     ''namespace: '', name, ''\<newline>'',
     ''\<newline>'',
     ''service:\<newline>'',
     ''  type: ClusterIP\<newline>'',
     ''  port: 80\<newline>'',
     ''\<newline>'',
     ''app:\<newline>'',
     ''  name: '', name, ''\<newline>'']\<close>

definition namespace_yaml :: "string \<Rightarrow> string" where
  "namespace_yaml name = concat [
     ''apiVersion: v1\<newline>'',
     ''kind: Namespace\<newline>'',
     ''metadata:\<newline>'',
     ''  name: '', name, ''\<newline>'']"

definition deployment_yaml :: string where
  \<open>deployment_yaml = concat [
     ''apiVersion: apps/v1\<newline>'',
     ''kind: Deployment\<newline>'',
     ''metadata:\<newline>'',
     ''  name: {{ .Values.app.name }}\<newline>'',
     ''  namespace: {{ .Values.namespace }}\<newline>'',
     ''  labels:\<newline>'',
     ''    app: {{ .Values.app.name }}\<newline>'',
     ''spec:\<newline>'',
     ''  replicas: {{ .Values.replicaCount }}\<newline>'',
     ''  selector:\<newline>'',
     ''    matchLabels:\<newline>'',
     ''      app: {{ .Values.app.name }}\<newline>'',
     ''  template:\<newline>'',
     ''    metadata:\<newline>'',
     ''      labels:\<newline>'',
     ''        app: {{ .Values.app.name }}\<newline>'',
     ''    spec:\<newline>'',
     ''      containers:\<newline>'',
     ''        - name: {{ .Values.app.name }}\<newline>'',
     ''          image: "{{ .Values.image.repository }}:{{ .Values.image.tag }}"\<newline>'',
     ''          imagePullPolicy: {{ .Values.image.pullPolicy }}\<newline>'',
     ''          ports:\<newline>'',
     ''            - containerPort: 80\<newline>'',
     ''          command: ["/bin/sh", "-c", "while true; do sleep 3600; done"]\<newline>'']\<close>

definition service_yaml :: string where
  "service_yaml = concat [
     ''apiVersion: v1\<newline>'',
     ''kind: Service\<newline>'',
     ''metadata:\<newline>'',
     ''  name: {{ .Values.app.name }}-svc\<newline>'',
     ''  namespace: {{ .Values.namespace }}\<newline>'',
     ''spec:\<newline>'',
     ''  selector:\<newline>'',
     ''    app: {{ .Values.app.name }}\<newline>'',
     ''  ports:\<newline>'',
     ''    - protocol: TCP\<newline>'',
     ''      port: {{ .Values.service.port }}\<newline>'',
     ''      targetPort: 80\<newline>'',
     ''  type: {{ .Values.service.type }}\<newline>'']"

text \<open>The image tag \<^verbatim>\<open>f"{distro}-{name}-v{prof_ver}"\<close>.\<close>

definition image_tag :: "(pyval \<Rightarrow> string) \<Rightarrow> pyval \<Rightarrow> pyval \<Rightarrow> pyval \<Rightarrow> string" where
  "image_tag repr distro name prof_ver =
     py_str repr distro @ ''-'' @ py_str repr name @ ''-v'' @ py_str repr prof_ver"

definition generate_helm ::
    "(pyval \<Rightarrow> string) \<Rightarrow> pyval \<Rightarrow> world \<Rightarrow> world \<times> (error + unit)" where
  "generate_helm repr profile w =
     (case subscript2 profile ''profile'' ''name'' of Inl e \<Rightarrow> (w, Inl e) | Inr name \<Rightarrow>
      case subscript2 profile ''os'' ''distro'' of Inl e \<Rightarrow> (w, Inl e) | Inr distro \<Rightarrow>
      case subscript2 profile ''os'' ''version'' of Inl e \<Rightarrow> (w, Inl e) | Inr version \<Rightarrow>
      case subscript2 profile ''profile'' ''version'' of Inl e \<Rightarrow> (w, Inl e) | Inr prof_ver \<Rightarrow>
      let w = write_file ''generated/helm/Chart.yaml''
                (chart_yaml (py_str repr name) (py_str repr prof_ver)) w;
          w = print ''[OK] Chart.yaml generated'' w;
          w = write_file ''generated/helm/values.yaml''
                (values_yaml (py_str repr name) (image_tag repr distro name prof_ver)) w;
          w = print ''[OK] values.yaml generated'' w;
          w = write_file ''generated/helm/templates/namespace.yaml''
                (namespace_yaml (py_str repr name)) w;
          w = print ''[OK] namespace.yaml generated'' w;
          w = write_file ''generated/helm/templates/deployment.yaml'' deployment_yaml w;
          w = print ''[OK] deployment.yaml generated'' w;
          w = write_file ''generated/helm/templates/service.yaml'' service_yaml w;
          w = print ''[OK] service.yaml generated'' w
      in generate_network_policies repr profile name w)"

section \<open>main\<close>

text \<open>\<^verbatim>\<open>sys.argv[1] if len(sys.argv) > 1 else "profile.yaml"\<close>.\<close>

definition profile_path :: "string list \<Rightarrow> string" where
  "profile_path argv = (if length argv > 1 then argv ! 1 else ''profile.yaml'')"

definition main ::
    "(string \<Rightarrow> pyval option) \<Rightarrow> (pyval \<Rightarrow> string) \<Rightarrow> string list \<Rightarrow> world \<Rightarrow> world \<times> (error + unit)" where
  "main safe_load repr argv w =
     (let profile_path = profile_path argv;
          w = print ''\<newline>=== Kubernetes Profile Generator ==='' w;
          w = print (''Reading profile: '' @ profile_path @ ''\<newline>'') w
      in case load_profile safe_load profile_path w of Inl e \<Rightarrow> (w, Inl e) | Inr profile \<Rightarrow>
        (let (w, r) = generate_dockerfile repr profile w in
         case r of Inl e \<Rightarrow> (w, Inl e) | Inr u \<Rightarrow>
        (let (w, r) = generate_helm repr profile w in
         case r of Inl e \<Rightarrow> (w, Inl e) | Inr u \<Rightarrow>
        (let w = print ''\<newline>=== Generation Complete ==='' w;
             w = print ''All files generated in generated/ directory'' w;
             w = print ''\<newline>Next steps:'' w;
             w = print ''  1. Update values.yaml with your Docker Hub username'' w;
             w = print ''  2. Run: docker build -t <username>/<image>:<tag> -f generated/Dockerfile .'' w;
             w = print ''  3. Run: docker push <username>/<image>:<tag>'' w;
             w = print ''  4. Run: helm install <name> generated/helm --namespace <namespace> --create-namespace'' w;
             w = print [] w
         in (w, Inr ())))))"

section \<open>Notions the properties are stated with\<close>

text \<open>
  The profile as the data model describes it: a field of a mapping (absent when the object
  is no mapping), the rules of the network section, a rule's direction, its peer
  namespace, protocol and port.
\<close>

fun field :: "pyval \<Rightarrow> string \<Rightarrow> pyval option" where
  "field (PDict d) k = map_of d k"
| "field _ k = None"

fun is_dict :: "pyval \<Rightarrow> bool" where
  "is_dict (PDict d) = True"
| "is_dict _ = False"

definition has_direction :: "string \<Rightarrow> pyval \<Rightarrow> bool" where
  "has_direction d r = (field r ''direction'' = Some (PStr d))"

text \<open>
  The peer namespace of a rule, under \<^verbatim>\<open>from\<close> or \<^verbatim>\<open>to\<close>; the empty string when the
  rule names none.
\<close>

definition peer_namespace :: "string \<Rightarrow> pyval \<Rightarrow> pyval" where
  "peer_namespace peer r =
     (case field r peer of
        None \<Rightarrow> PStr []
      | Some p \<Rightarrow> (case field p ''namespace'' of None \<Rightarrow> PStr [] | Some ns \<Rightarrow> ns))"

definition rule_value :: "pyval \<Rightarrow> string \<Rightarrow> pyval" where
  "rule_value r k = (case field r k of None \<Rightarrow> PNone | Some v \<Rightarrow> v)"

text \<open>The allow entry that belongs to a rule.\<close>

definition rule_entry :: "(pyval \<Rightarrow> string) \<Rightarrow> string \<Rightarrow> pyval \<Rightarrow> string" where
  "rule_entry repr peer r =
     allow_entry peer (py_str repr (peer_namespace peer r))
       (py_str repr (rule_value r ''protocol'')) (py_str repr (rule_value r ''port''))"

text \<open>
  A rule of the data model: a direction, ingress with \<^verbatim>\<open>from.namespace\<close> or egress with
  \<^verbatim>\<open>to.namespace\<close>, a protocol and a port.
\<close>

definition has_peer :: "string \<Rightarrow> pyval \<Rightarrow> bool" where
  "has_peer peer r = (case field r peer of None \<Rightarrow> False | Some p \<Rightarrow> field p ''namespace'' \<noteq> None)"

definition valid_rule :: "pyval \<Rightarrow> bool" where
  "valid_rule r =
     ((has_direction ''ingress'' r \<and> has_peer ''from'' r \<or>
       has_direction ''egress'' r \<and> has_peer ''to'' r) \<and>
      field r ''protocol'' \<noteq> None \<and> field r ''port'' \<noteq> None)"


text \<open>
  What the loop body needs of a rule to emit its entry: a protocol, a port, and under the
  peer key nothing or a mapping.
\<close>

definition emittable :: "string \<Rightarrow> pyval \<Rightarrow> bool" where
  "emittable peer r =
     (field r ''protocol'' \<noteq> None \<and> field r ''port'' \<noteq> None \<and>
      (case field r peer of None \<Rightarrow> True | Some p \<Rightarrow> is_dict p))"

text \<open>
  The block of one direction in the allow policy: the explicit empty list when there is
  no entry, the key followed by the entries otherwise.
\<close>

definition block_text :: "string \<Rightarrow> string list \<Rightarrow> string" where
  "block_text direction entries =
     (if entries = [] then ''  '' @ direction @ '': []\<newline>''
      else ''  '' @ direction @ '':\<newline>'' @ concat entries)"

text \<open>A value of the network section (\<open>PNone\<close> when absent), and its rules.\<close>

definition network_value :: "pyval \<Rightarrow> string \<Rightarrow> pyval" where
  "network_value profile k =
     (case field profile ''network'' of
        None \<Rightarrow> PNone
      | Some network \<Rightarrow> (case field network k of None \<Rightarrow> PNone | Some v \<Rightarrow> v))"

definition network_rules :: "pyval \<Rightarrow> pyval" where
  "network_rules profile =
     (case field profile ''network'' of
        None \<Rightarrow> PNone
      | Some network \<Rightarrow> (case field network ''rules'' of None \<Rightarrow> PList [] | Some v \<Rightarrow> v))"

definition networkpolicy_path :: string where
  "networkpolicy_path = ''generated/helm/templates/networkpolicy.yaml''"

text \<open>The network policy document of a profile whose rules are the list \<open>rules\<close>.\<close>

definition policy_document :: "(pyval \<Rightarrow> string) \<Rightarrow> pyval \<Rightarrow> pyval list \<Rightarrow> string" where
  "policy_document repr profile rules =
     networkpolicy_yaml
       (policy_types_str (policy_types (network_value profile ''default_deny_ingress'')
                                       (network_value profile ''default_deny_egress'')))
       (block_text ''ingress'' (map (rule_entry repr ''from'') (filter (has_direction ''ingress'') rules)))
       (block_text ''egress'' (map (rule_entry repr ''to'') (filter (has_direction ''egress'') rules)))"

subsection \<open>Example inputs\<close>

definition example_rules :: "pyval list" where
  "example_rules = [
     PDict [(''direction'', PStr ''ingress''), (''from'', PDict [(''namespace'', PStr ''monitoring'')]),
            (''protocol'', PStr ''TCP''), (''port'', PInt 9090)],
     PDict [(''direction'', PStr ''egress''), (''to'', PDict [(''namespace'', PStr ''kube-system'')]),
            (''protocol'', PStr ''UDP''), (''port'', PInt 53)],
     PDict [(''direction'', PStr ''ingress''), (''from'', PDict [(''namespace'', PStr ''frontend'')]),
            (''protocol'', PStr ''TCP''), (''port'', PInt 80)]]"

definition example_network :: "pyval \<Rightarrow> pyval \<Rightarrow> pyval list \<Rightarrow> (string \<times> pyval) list" where
  "example_network deny_ingress deny_egress rules =
     [(''default_deny_ingress'', deny_ingress),
      (''default_deny_egress'', deny_egress),
      (''rules'', PList rules)]"

definition example_profile :: "pyval \<Rightarrow> pyval \<Rightarrow> pyval list \<Rightarrow> pyval" where
  "example_profile deny_ingress deny_egress rules = PDict [
     (''profile'', PDict [(''name'', PStr ''worker''), (''version'', PStr ''1'')]),
     (''os'', PDict [(''distro'', PStr ''ubuntu''), (''version'', PStr ''22.04'')]),
     (''packages'', PList [PStr ''curl'']),
     (''network'', PDict (example_network deny_ingress deny_egress rules))]"

definition empty_world :: world where
  "empty_world = \<lparr>files = Map.empty, stdout = []\<rparr>"

text \<open>An ingress rule that names no peer at all.\<close>

definition nameless_rule :: pyval where
  "nameless_rule = PDict [(''direction'', PStr ''ingress''), (''protocol'', PStr ''TCP''), (''port'', PInt 8080)]"

text \<open>A rule whose direction is neither of the two.\<close>

definition sideways_rule :: pyval where
  "sideways_rule = PDict [(''direction'', PStr ''both''), (''from'', PDict [(''namespace'', PStr ''qa'')]),
                          (''protocol'', PStr ''TCP''), (''port'', PInt 443)]"

text \<open>
  A profile with an empty package list and a network section that has neither rules nor
  flags.
\<close>

definition minimal_profile :: pyval where
  "minimal_profile = PDict [
     (''profile'', PDict [(''name'', PStr ''worker''), (''version'', PStr ''1'')]),
     (''os'', PDict [(''distro'', PStr ''ubuntu''), (''version'', PStr ''22.04'')]),
     (''packages'', PList []),
     (''network'', PDict [])]"

subsection \<open>The generated artifacts\<close>

definition dockerfile_path :: string where
  "dockerfile_path = ''generated/Dockerfile''"

definition chart_path :: string where
  "chart_path = ''generated/helm/Chart.yaml''"

definition values_path :: string where
  "values_path = ''generated/helm/values.yaml''"

definition namespace_path :: string where
  "namespace_path = ''generated/helm/templates/namespace.yaml''"

definition deployment_path :: string where
  "deployment_path = ''generated/helm/templates/deployment.yaml''"

definition service_path :: string where
  "service_path = ''generated/helm/templates/service.yaml''"

definition artifact_paths :: "string list" where
  "artifact_paths =
     [dockerfile_path, chart_path, values_path, namespace_path, deployment_path, service_path,
      networkpolicy_path]"

text \<open>The lines of a text: the pieces between its newline characters.\<close>

fun text_lines :: "string \<Rightarrow> string list" where
  "text_lines [] = [[]]"
| "text_lines (c # cs) =
     (if c = CHR 0x0A then [] # text_lines cs
      else (case text_lines cs of [] \<Rightarrow> [[c]] | l # ls \<Rightarrow> (c # l) # ls))"

text \<open>
  The two generator calls of \<^verbatim>\<open>main\<close>, one after the other, on a loaded profile: the
  second is not reached when the first raises.
\<close>

definition generate :: "(pyval \<Rightarrow> string) \<Rightarrow> pyval \<Rightarrow> world \<Rightarrow> world \<times> (error + unit)" where
  "generate repr profile w =
     (let (w, r) = generate_dockerfile repr profile w in
      case r of Inl e \<Rightarrow> (w, Inl e) | Inr u \<Rightarrow> generate_helm repr profile w)"

text \<open>A world with the files and the output of a second one laid over it.\<close>

definition overlay :: "world \<Rightarrow> world \<Rightarrow> world" where
  "overlay w d = \<lparr>files = files w ++ files d, stdout = stdout w @ stdout d\<rparr>"

subsection \<open>Example environments\<close>

text \<open>
  Loaders standing for \<^verbatim>\<open>yaml.safe_load\<close> on given texts, two worlds holding a profile file,
  a \<open>repr\<close> that is never consulted on scalars, and a profile with no network section.
\<close>

definition example_loader :: "string \<Rightarrow> pyval option" where
  "example_loader text =
     (if text = ''profile text'' then Some (example_profile (PBool True) (PBool False) example_rules)
      else None)"

definition fresh_world :: world where
  "fresh_world = \<lparr>files = [''profile.yaml'' \<mapsto> ''profile text''], stdout = []\<rparr>"

definition used_world :: world where
  "used_world =
     \<lparr>files = [''p.yaml'' \<mapsto> ''profile text'', ''generated/Dockerfile'' \<mapsto> ''FROM scratch'',
               ''notes.txt'' \<mapsto> ''keep''],
      stdout = [''earlier output'']\<rparr>"

definition plain_repr :: "pyval \<Rightarrow> string" where
  "plain_repr v = []"

definition minimal_loader :: "string \<Rightarrow> pyval option" where
  "minimal_loader text = Some minimal_profile"

definition networkless_profile :: pyval where
  "networkless_profile = PDict [
     (''profile'', PDict [(''name'', PStr ''worker''), (''version'', PStr ''1'')]),
     (''os'', PDict [(''distro'', PStr ''ubuntu''), (''version'', PStr ''22.04'')]),
     (''packages'', PList [])]"

definition networkless_loader :: "string \<Rightarrow> pyval option" where
  "networkless_loader text = Some networkless_profile"

definition rejecting_loader :: "string \<Rightarrow> pyval option" where
  "rejecting_loader text = None"

subsection \<open>Rules with and without a usable peer\<close>






text \<open>
  A profile complete but for the protocol of one ingress rule, and a loader that gives it.
\<close>

definition protocolless_profile :: pyval where
  "protocolless_profile =
     example_profile (PBool True) (PBool False)
       (example_rules @
        PDict [(''direction'', PStr ''ingress''), (''from'', PDict [(''namespace'', PStr ''qa'')])] #
        [nameless_rule])"

definition protocolless_loader :: "string \<Rightarrow> pyval option" where
  "protocolless_loader text = Some protocolless_profile"

section \<open>Auxiliary facts\<close>

lemma dec_nat_digit: "n < 10 \<Longrightarrow> dec_nat n = [''0123456789'' ! n]"
  by (simp add: dec_nat.simps)

lemma dec_nat_more: "10 \<le> n \<Longrightarrow> dec_nat n = dec_nat (n div 10) @ [''0123456789'' ! (n mod 10)]"
  by (subst dec_nat.simps) simp

lemma dec_int_examples:
  "dec_int 9090 = ''9090''" "dec_int 53 = ''53''" "dec_int 80 = ''80''"
  by (simp_all add: dec_int_def dec_nat_digit dec_nat_more)

lemma subscript_field:
  "subscript r k = (case field r k of Some v \<Rightarrow> Inr v | None \<Rightarrow> (if is_dict r then Inl (KeyError k) else Inl TypeError))"
  by (cases r) (auto split: option.splits)

lemma field_is_dict: "field r k = Some v \<Longrightarrow> is_dict r"
  by (cases r) auto

lemma select_direction_filter:
  "\<forall>r\<in>set rs. field r ''direction'' \<noteq> None \<Longrightarrow>
   select_direction d rs = Inr (filter (has_direction d) rs)"
  by (induction rs) (auto simp: subscript_field has_direction_def split: option.splits)

lemma entries_loop_concat:
  "\<forall>r\<in>set rs. emittable peer r \<Longrightarrow>
   entries_loop repr peer rs block = Inr (block @ concat (map (rule_entry repr peer) rs))"
proof (induction rs arbitrary: block)
  case Nil
  then show ?case by simp
next
  case (Cons r rs)
  from Cons.prems have e: "emittable peer r" and rest: "\<forall>r\<in>set rs. emittable peer r"
    by simp_all
  from e obtain d where r: "r = PDict d"
    by (cases r) (auto simp: emittable_def)
  from e r obtain pr po where pr: "map_of d ''protocol'' = Some pr" and po: "map_of d ''port'' = Some po"
    by (auto simp: emittable_def)
  show ?case
  proof (cases "map_of d peer")
    case None
    then show ?thesis
      using r pr po Cons.IH [OF rest]
      by (simp add: rule_entry_def peer_namespace_def rule_value_def)
  next
    case (Some p)
    with e r obtain pd where p: "p = PDict pd"
      by (cases p) (auto simp: emittable_def)
    show ?thesis
      using r pr po Some p Cons.IH [OF rest]
      by (simp add: rule_entry_def peer_namespace_def rule_value_def split: option.splits)
  qed
qed

lemma build_block_text:
  "\<forall>r\<in>set rs. emittable peer r \<Longrightarrow>
   build_block repr direction peer rs = Inr (block_text direction (map (rule_entry repr peer) rs))"
  by (simp add: build_block_def block_text_def entries_loop_concat)

lemma generate_network_policies_rules:
  assumes nw: "field profile ''network'' = Some (PDict nw)"
    and rules: "network_rules profile = PList rules"
    and dir: "\<forall>r\<in>set rules. field r ''direction'' \<noteq> None"
    and ing: "\<forall>r\<in>set rules. has_direction ''ingress'' r \<longrightarrow> emittable ''from'' r"
    and egr: "\<forall>r\<in>set rules. has_direction ''egress'' r \<longrightarrow> emittable ''to'' r"
  shows "generate_network_policies repr profile name w =
           (print ''[OK] networkpolicy.yaml generated''
              (write_file networkpolicy_path (policy_document repr profile rules) w), Inr ())"
proof -
  from nw have sub: "subscript profile ''network'' = Inr (PDict nw)"
    by (simp add: subscript_field)
  from nw rules have get: "dict_get (PDict nw) ''rules'' (PList []) = Inr (PList rules)"
    by (simp add: network_rules_def)
  have sel: "rules_of_direction d (PList rules) = Inr (filter (has_direction d) rules)" for d
    using dir by (simp add: rules_of_direction_def select_direction_filter)
  have bi: "build_block repr ''ingress'' ''from'' (filter (has_direction ''ingress'') rules) =
              Inr (block_text ''ingress'' (map (rule_entry repr ''from'') (filter (has_direction ''ingress'') rules)))"
    using ing by (intro build_block_text) simp
  have be: "build_block repr ''egress'' ''to'' (filter (has_direction ''egress'') rules) =
              Inr (block_text ''egress'' (map (rule_entry repr ''to'') (filter (has_direction ''egress'') rules)))"
    using egr by (intro build_block_text) simp
  have flag: "dict_get (PDict nw) k PNone = Inr (network_value profile k)" for k
    using nw by (simp add: network_value_def)
  show ?thesis
    unfolding generate_network_policies_def
    by (simp add: sub get sel bi be flag policy_document_def networkpolicy_path_def
          del: dict_get.simps)
qed

lemma has_peer_emittable:
  "has_peer peer r \<Longrightarrow> field r ''protocol'' \<noteq> None \<Longrightarrow> field r ''port'' \<noteq> None \<Longrightarrow> emittable peer r"
  by (auto simp: has_peer_def emittable_def split: option.splits dest: field_is_dict)

lemma has_direction_field: "has_direction d r \<Longrightarrow> field r ''direction'' \<noteq> None"
  by (simp add: has_direction_def)

lemma filter_two_length:
  "\<forall>x\<in>set xs. (P x \<or> Q x) \<and> \<not> (P x \<and> Q x) \<Longrightarrow>
   length (filter P xs) + length (filter Q xs) = length xs"
  by (induction xs) auto

lemma filter_two_length_le:
  "\<forall>x\<in>set xs. \<not> (P x \<and> Q x) \<Longrightarrow> length (filter P xs) + length (filter Q xs) \<le> length xs"
  by (induction xs) auto

lemma not_both_directions: "\<not> (has_direction ''ingress'' r \<and> has_direction ''egress'' r)"
  by (simp add: has_direction_def)

lemma valid_rule_emittable:
  assumes "valid_rule r"
  shows "has_direction ''ingress'' r \<longrightarrow> emittable ''from'' r"
    and "has_direction ''egress'' r \<longrightarrow> emittable ''to'' r"
  using assms by (auto simp: valid_rule_def has_direction_def intro!: has_peer_emittable)

lemma subscript_Inr_field: "subscript x k = Inr v \<Longrightarrow> field x k = Some v"
  by (cases x) (auto split: option.splits)


lemma policy_types_spec:
  "policy_types di de =
     (if truthy di then [''Ingress''] else []) @ (if truthy de then [''Egress''] else [])"
  by (simp add: policy_types_def)

lemma policy_types_text:
  "policy_types_str (policy_types di de) =
     (if truthy di
        then (if truthy de then ''  - Ingress\<newline>  - Egress'' else ''  - Ingress'')
        else (if truthy de then ''  - Egress'' else []))"
  by (simp add: policy_types_def policy_types_str_def)



lemma example_network_field:
  "field (example_profile di de rules) ''network'' = Some (PDict (example_network di de rules))"
  by (simp add: example_profile_def)

lemma example_network_rules: "network_rules (example_profile di de rules) = PList rules"
  by (simp add: network_rules_def example_profile_def example_network_def)

lemma example_network_values:
  "network_value (example_profile di de rules) ''default_deny_ingress'' = di"
  "network_value (example_profile di de rules) ''default_deny_egress'' = de"
  by (simp_all add: network_value_def example_profile_def example_network_def)

lemma example_rules_valid: "list_all valid_rule example_rules"
  by (simp add: example_rules_def valid_rule_def has_direction_def has_peer_def)

lemma valid_rules_generate:
  assumes "list_all valid_rule rules"
  shows "generate_network_policies repr (example_profile di de rules) name w =
           (print ''[OK] networkpolicy.yaml generated''
              (write_file networkpolicy_path (policy_document repr (example_profile di de rules) rules) w),
            Inr ())"
proof -
  have v: "\<forall>r\<in>set rules. valid_rule r" using assms by (simp add: list_all_iff)
  have dir: "\<forall>r\<in>set rules. field r ''direction'' \<noteq> None"
    using v by (auto simp: valid_rule_def dest: has_direction_field)
  show ?thesis
    using v valid_rule_emittable
    by (intro generate_network_policies_rules [OF example_network_field example_network_rules dir]) blast+
qed

lemma isolation_text:
  "networkpolicy_yaml (policy_types_str (policy_types (PBool True) (PBool True)))
     (block_text ''ingress'' []) (block_text ''egress'' []) = concat [
     ''# Policy 1: Default Deny\<newline>'',
     ''apiVersion: networking.k8s.io/v1\<newline>'',
     ''kind: NetworkPolicy\<newline>'',
     ''metadata:\<newline>'',
     ''  name: default-deny\<newline>'',
     ''  namespace: {{ .Values.namespace }}\<newline>'',
     ''spec:\<newline>'',
     ''  podSelector: {}\<newline>'',
     ''  policyTypes:\<newline>'',
     ''  - Ingress\<newline>'',
     ''  - Egress\<newline>'',
     ''---\<newline>'',
     ''# Policy 2: Allow exceptions\<newline>'',
     ''apiVersion: networking.k8s.io/v1\<newline>'',
     ''kind: NetworkPolicy\<newline>'',
     ''metadata:\<newline>'',
     ''  name: {{ .Values.app.name }}-allow\<newline>'',
     ''  namespace: {{ .Values.namespace }}\<newline>'',
     ''spec:\<newline>'',
     ''  podSelector:\<newline>'',
     ''    matchLabels:\<newline>'',
     ''      app: {{ .Values.app.name }}\<newline>'',
     ''  policyTypes:\<newline>'',
     ''  - Ingress\<newline>'',
     ''  - Egress\<newline>'',
     ''  ingress: []\<newline>'',
     ''  egress: []\<newline>'']"
  by (simp add: networkpolicy_yaml_def policy_types_str_def policy_types_def block_text_def)




lemma valid_rule_direction: "valid_rule r \<Longrightarrow> field r ''direction'' \<noteq> None"
  by (auto simp: valid_rule_def dest: has_direction_field)


lemma example_entries:
  "map (rule_entry (\<lambda>v. []) ''from'') (filter (has_direction ''ingress'') example_rules) =
     [allow_entry ''from'' ''monitoring'' ''TCP'' ''9090'', allow_entry ''from'' ''frontend'' ''TCP'' ''80'']"
  "map (rule_entry (\<lambda>v. []) ''to'') (filter (has_direction ''egress'') example_rules) =
     [allow_entry ''to'' ''kube-system'' ''UDP'' ''53'']"
  by (simp_all add: example_rules_def has_direction_def rule_entry_def peer_namespace_def
        rule_value_def dec_int_examples)


lemma select_direction_skip:
  assumes "field r0 ''direction'' = Some v" and "v \<noteq> PStr d"
  shows "select_direction d (xs @ r0 # ys) = select_direction d (xs @ ys)"
proof (induction xs)
  case Nil
  from assms show ?case
    by (simp add: subscript_field split: sum.splits)
next
  case (Cons x xs)
  then show ?case by (simp split: sum.splits)
qed

lemma select_direction_Inr:
  "select_direction d rs = Inr keep \<Longrightarrow> keep = filter (has_direction d) rs"
proof (induction rs arbitrary: keep)
  case Nil
  then show ?case by simp
next
  case (Cons r rs)
  then show ?case
    by (auto simp: has_direction_def split: sum.splits if_splits dest: subscript_Inr_field)
qed

lemma generate_network_policies_unfold:
  assumes "field profile ''network'' = Some (PDict nw)"
    and "network_rules profile = PList rules"
  shows "generate_network_policies repr profile name w =
     (case select_direction ''ingress'' rules of Inl e \<Rightarrow> (w, Inl e) | Inr ingress_rules \<Rightarrow>
      case select_direction ''egress'' rules of Inl e \<Rightarrow> (w, Inl e) | Inr egress_rules \<Rightarrow>
      case build_block repr ''ingress'' ''from'' ingress_rules of Inl e \<Rightarrow> (w, Inl e) | Inr ingress_block \<Rightarrow>
      case build_block repr ''egress'' ''to'' egress_rules of Inl e \<Rightarrow> (w, Inl e) | Inr egress_block \<Rightarrow>
        (print ''[OK] networkpolicy.yaml generated''
           (write_file networkpolicy_path
              (networkpolicy_yaml
                 (policy_types_str (policy_types (network_value profile ''default_deny_ingress'')
                                                 (network_value profile ''default_deny_egress'')))
                 ingress_block egress_block) w), Inr ()))"
proof -
  from assms(1) have sub: "subscript profile ''network'' = Inr (PDict nw)"
    by (simp add: subscript_field)
  from assms have get: "dict_get (PDict nw) ''rules'' (PList []) = Inr (PList rules)"
    by (simp add: network_rules_def)
  have flag: "dict_get (PDict nw) k PNone = Inr (network_value profile k)" for k
    using assms(1) by (simp add: network_value_def)
  show ?thesis
    unfolding generate_network_policies_def
    by (simp add: sub get flag rules_of_direction_def networkpolicy_path_def
          del: dict_get.simps split: sum.splits)
qed

lemma subscript2_fields:
  "field x k1 = Some y \<Longrightarrow> field y k2 = Some v \<Longrightarrow> subscript2 x k1 k2 = Inr v"
  by (simp add: subscript2_def subscript_field)

lemma str_join_names: "str_join sep (PList (map PStr names)) = Inr (join_strs sep names)"
  by (simp add: str_join_def list_all_iff comp_def)

lemma generate_network_policies_other_files:
  "p \<noteq> networkpolicy_path \<Longrightarrow>
   files (fst (generate_network_policies repr profile name w)) p = files w p"
  unfolding generate_network_policies_def networkpolicy_path_def
  by (simp add: Let_def print_def write_file_def split: sum.splits)

lemma generate_helm_files:
  assumes "subscript2 profile ''profile'' ''name'' = Inr name"
    and "subscript2 profile ''os'' ''distro'' = Inr distro"
    and "subscript2 profile ''os'' ''version'' = Inr version"
    and "subscript2 profile ''profile'' ''version'' = Inr prof_ver"
  shows "files (fst (generate_helm repr profile w)) chart_path =
           Some (chart_yaml (py_str repr name) (py_str repr prof_ver))"
    and "files (fst (generate_helm repr profile w)) values_path =
           Some (values_yaml (py_str repr name) (image_tag repr distro name prof_ver))"
    and "files (fst (generate_helm repr profile w)) namespace_path =
           Some (namespace_yaml (py_str repr name))"
    and "files (fst (generate_helm repr profile w)) deployment_path = Some deployment_yaml"
    and "files (fst (generate_helm repr profile w)) service_path = Some service_yaml"
  unfolding generate_helm_def
  by (simp_all add: assms Let_def generate_network_policies_other_files print_def write_file_def
        chart_path_def values_path_def namespace_path_def deployment_path_def service_path_def
        networkpolicy_path_def)

lemma example_fields:
  "field (example_profile di de rules) ''profile'' =
     Some (PDict [(''name'', PStr ''worker''), (''version'', PStr ''1'')])"
  "field (example_profile di de rules) ''os'' =
     Some (PDict [(''distro'', PStr ''ubuntu''), (''version'', PStr ''22.04'')])"
  "field (PDict [(''name'', PStr ''worker''), (''version'', PStr ''1'')]) ''name'' = Some (PStr ''worker'')"
  "field (PDict [(''name'', PStr ''worker''), (''version'', PStr ''1'')]) ''version'' = Some (PStr ''1'')"
  "field (PDict [(''distro'', PStr ''ubuntu''), (''version'', PStr ''22.04'')]) ''distro'' = Some (PStr ''ubuntu'')"
  "field (PDict [(''distro'', PStr ''ubuntu''), (''version'', PStr ''22.04'')]) ''version'' = Some (PStr ''22.04'')"
  by (simp_all add: example_profile_def)

lemma deployment_lines:
  \<open>text_lines deployment_yaml = [
     ''apiVersion: apps/v1'',
     ''kind: Deployment'',
     ''metadata:'',
     ''  name: {{ .Values.app.name }}'',
     ''  namespace: {{ .Values.namespace }}'',
     ''  labels:'',
     ''    app: {{ .Values.app.name }}'',
     ''spec:'',
     ''  replicas: {{ .Values.replicaCount }}'',
     ''  selector:'',
     ''    matchLabels:'',
     ''      app: {{ .Values.app.name }}'',
     ''  template:'',
     ''    metadata:'',
     ''      labels:'',
     ''        app: {{ .Values.app.name }}'',
     ''    spec:'',
     ''      containers:'',
     ''        - name: {{ .Values.app.name }}'',
     ''          image: "{{ .Values.image.repository }}:{{ .Values.image.tag }}"'',
     ''          imagePullPolicy: {{ .Values.image.pullPolicy }}'',
     ''          ports:'',
     ''            - containerPort: 80'',
     ''          command: ["/bin/sh", "-c", "while true; do sleep 3600; done"]'',
     []]\<close>
  by (simp add: deployment_yaml_def)

lemma service_lines:
  "text_lines service_yaml = [
     ''apiVersion: v1'',
     ''kind: Service'',
     ''metadata:'',
     ''  name: {{ .Values.app.name }}-svc'',
     ''  namespace: {{ .Values.namespace }}'',
     ''spec:'',
     ''  selector:'',
     ''    app: {{ .Values.app.name }}'',
     ''  ports:'',
     ''    - protocol: TCP'',
     ''      port: {{ .Values.service.port }}'',
     ''      targetPort: 80'',
     ''  type: {{ .Values.service.type }}'',
     []]"
  by (simp add: service_yaml_def)

lemma overlay_empty: "overlay w empty_world = w"
  by (simp add: overlay_def empty_world_def)

lemma overlay_assoc: "overlay (overlay w a) b = overlay w (overlay a b)"
  by (simp add: overlay_def)

lemma write_file_overlay: "write_file p t (overlay w d) = overlay w (write_file p t d)"
  by (simp add: overlay_def write_file_def)

lemma print_overlay: "print l (overlay w d) = overlay w (print l d)"
  by (simp add: overlay_def print_def)

lemma files_overlay: "files (overlay w d) = files w ++ files d"
  by (simp add: overlay_def)

lemma generate_network_policies_overlay:
  "generate_network_policies repr profile name (overlay w d) =
     (overlay w (fst (generate_network_policies repr profile name d)),
      snd (generate_network_policies repr profile name d))"
  unfolding generate_network_policies_def
  by (simp add: Let_def write_file_overlay print_overlay split: sum.splits)

lemma generate_dockerfile_overlay:
  "generate_dockerfile repr profile (overlay w d) =
     (overlay w (fst (generate_dockerfile repr profile d)),
      snd (generate_dockerfile repr profile d))"
  unfolding generate_dockerfile_def
  by (simp add: Let_def write_file_overlay print_overlay split: sum.splits)

lemma generate_helm_overlay:
  "generate_helm repr profile (overlay w d) =
     (overlay w (fst (generate_helm repr profile d)),
      snd (generate_helm repr profile d))"
  unfolding generate_helm_def
  by (simp add: Let_def write_file_overlay print_overlay generate_network_policies_overlay
        split: sum.splits)

lemma generate_overlay:
  "generate repr profile (overlay w d) =
     (overlay w (fst (generate repr profile d)), snd (generate repr profile d))"
  unfolding generate_def
  by (simp add: generate_dockerfile_overlay generate_helm_overlay split: sum.splits prod.splits)

lemma generate_delta:
  "generate repr profile w =
     (overlay w (fst (generate repr profile empty_world)), snd (generate repr profile empty_world))"
  using generate_overlay [of repr profile w empty_world] by (simp add: overlay_empty)

lemma generate_network_policies_dom:
  "dom (files (fst (generate_network_policies repr profile name w))) =
     (if snd (generate_network_policies repr profile name w) = Inr ()
      then insert networkpolicy_path (dom (files w)) else dom (files w))"
  unfolding generate_network_policies_def networkpolicy_path_def
  by (simp add: Let_def write_file_def print_def split: sum.splits)

lemma generate_dockerfile_dom:
  "dom (files (fst (generate_dockerfile repr profile w))) =
     (if snd (generate_dockerfile repr profile w) = Inr ()
      then insert dockerfile_path (dom (files w)) else dom (files w))"
  unfolding generate_dockerfile_def dockerfile_path_def
  by (simp add: Let_def write_file_def print_def split: sum.splits)

lemma generate_helm_dom:
  "dom (files (fst (generate_helm repr profile w))) \<subseteq>
     {chart_path, values_path, namespace_path, deployment_path, service_path, networkpolicy_path}
       \<union> dom (files w) \<and>
   (snd (generate_helm repr profile w) = Inr () \<longrightarrow>
    dom (files (fst (generate_helm repr profile w))) =
     {chart_path, values_path, namespace_path, deployment_path, service_path, networkpolicy_path}
       \<union> dom (files w))"
  unfolding generate_helm_def
  by (auto simp: Let_def generate_network_policies_dom write_file_def print_def
        chart_path_def values_path_def namespace_path_def deployment_path_def service_path_def
        split: sum.splits if_splits)

lemma generate_dom:
  "dom (files (fst (generate repr profile w))) \<subseteq> set artifact_paths \<union> dom (files w) \<and>
   (snd (generate repr profile w) = Inr () \<longrightarrow>
    dom (files (fst (generate repr profile w))) = set artifact_paths \<union> dom (files w))"
proof (cases "generate_dockerfile repr profile w")
  case (Pair w1 r)
  show ?thesis
  proof (cases r)
    case (Inl e)
    with Pair have g: "generate repr profile w = (w1, Inl e)"
      by (simp add: generate_def)
    have "dom (files w1) = dom (files w)"
      using generate_dockerfile_dom [of repr profile w] Pair Inl by simp
    with g show ?thesis by simp
  next
    case (Inr u)
    with Pair have g: "generate repr profile w = generate_helm repr profile w1"
      by (simp add: generate_def)
    have d: "dom (files w1) = insert dockerfile_path (dom (files w))"
      using generate_dockerfile_dom [of repr profile w] Pair Inr by simp
    show ?thesis
      unfolding g using generate_helm_dom [of repr profile w1] d
      by (auto simp: artifact_paths_def)
  qed
qed

lemma load_profile_print:
  "load_profile safe_load path (print l w) = load_profile safe_load path w"
  by (simp add: load_profile_def print_def)

lemma main_generate:
  assumes "load_profile safe_load (profile_path argv) w = Inr profile"
  shows "files (fst (main safe_load repr argv w)) = files (fst (generate repr profile w))"
    and "snd (main safe_load repr argv w) = snd (generate repr profile w)"
proof -
  let ?w2 = "print (''Reading profile: '' @ profile_path argv @ ''\<newline>'')
               (print ''\<newline>=== Kubernetes Profile Generator ==='' w)"
  have w2: "?w2 = overlay w (print (''Reading profile: '' @ profile_path argv @ ''\<newline>'')
               (print ''\<newline>=== Kubernetes Profile Generator ==='' empty_world))"
    by (simp add: print_overlay [symmetric] overlay_empty)
  have gen: "generate repr profile ?w2 =
      (overlay w (fst (generate repr profile (print (''Reading profile: '' @ profile_path argv @ ''\<newline>'')
               (print ''\<newline>=== Kubernetes Profile Generator ==='' empty_world)))),
       snd (generate repr profile (print (''Reading profile: '' @ profile_path argv @ ''\<newline>'')
               (print ''\<newline>=== Kubernetes Profile Generator ==='' empty_world))))"
    unfolding w2 by (rule generate_overlay)
  have m: "main safe_load repr argv w =
     (case generate repr profile ?w2 of
        (w3, Inl e) \<Rightarrow> (w3, Inl e)
      | (w3, Inr u) \<Rightarrow>
         (print [] (print ''  4. Run: helm install <name> generated/helm --namespace <namespace> --create-namespace''
           (print ''  3. Run: docker push <username>/<image>:<tag>''
           (print ''  2. Run: docker build -t <username>/<image>:<tag> -f generated/Dockerfile .''
           (print ''  1. Update values.yaml with your Docker Hub username''
           (print ''\<newline>Next steps:''
           (print ''All files generated in generated/ directory''
           (print ''\<newline>=== Generation Complete ==='' w3))))))), Inr ()))"
    unfolding main_def generate_def
    by (simp add: Let_def load_profile_print assms split: prod.splits sum.splits)
  have f2: "files (fst (generate repr profile ?w2)) = files (fst (generate repr profile w))"
    using generate_delta [of repr profile ?w2] generate_delta [of repr profile w]
    by (simp add: files_overlay print_def)
  have s2: "snd (generate repr profile ?w2) = snd (generate repr profile w)"
    using generate_delta [of repr profile ?w2] generate_delta [of repr profile w] by simp
  show "files (fst (main safe_load repr argv w)) = files (fst (generate repr profile w))"
    unfolding m f2 [symmetric] by (simp add: print_def split: prod.splits sum.splits)
  show "snd (main safe_load repr argv w) = snd (generate repr profile w)"
    unfolding m s2 [symmetric] by (simp split: prod.splits sum.splits)
qed

lemma subscript_missing:
  "is_dict p \<Longrightarrow> field p k = None \<Longrightarrow> subscript p k = Inl (KeyError k)"
  by (simp add: subscript_field)

lemma subscript2_missing_outer:
  "is_dict p \<Longrightarrow> field p k1 = None \<Longrightarrow> subscript2 p k1 k2 = Inl (KeyError k1)"
  by (simp add: subscript2_def subscript_missing)

lemma subscript2_missing_inner:
  "field p k1 = Some q \<Longrightarrow> is_dict q \<Longrightarrow> field q k2 = None \<Longrightarrow>
   subscript2 p k1 k2 = Inl (KeyError k2)"
  by (simp add: subscript2_def subscript_field)

lemma dockerfile_missing_os:
  "is_dict p \<Longrightarrow> field p ''os'' = None \<Longrightarrow>
   generate_dockerfile repr p w = (w, Inl (KeyError ''os''))"
  by (simp add: generate_dockerfile_def subscript2_missing_outer)

lemma dockerfile_missing_distro:
  "field p ''os'' = Some os \<Longrightarrow> is_dict os \<Longrightarrow> field os ''distro'' = None \<Longrightarrow>
   generate_dockerfile repr p w = (w, Inl (KeyError ''distro''))"
  by (simp add: generate_dockerfile_def subscript2_missing_inner)

lemma dockerfile_missing_version:
  "field p ''os'' = Some os \<Longrightarrow> field os ''distro'' = Some distro \<Longrightarrow> field os ''version'' = None \<Longrightarrow>
   generate_dockerfile repr p w = (w, Inl (KeyError ''version''))"
  by (simp add: generate_dockerfile_def subscript2_fields subscript2_missing_inner field_is_dict)

lemma dockerfile_missing_packages:
  "field p ''os'' = Some os \<Longrightarrow> field os ''distro'' = Some distro \<Longrightarrow>
   field os ''version'' = Some version \<Longrightarrow> field p ''packages'' = None \<Longrightarrow>
   generate_dockerfile repr p w = (w, Inl (KeyError ''packages''))"
  by (simp add: generate_dockerfile_def subscript2_fields subscript_missing field_is_dict)

lemma helm_missing_profile:
  "is_dict p \<Longrightarrow> field p ''profile'' = None \<Longrightarrow>
   generate_helm repr p w = (w, Inl (KeyError ''profile''))"
  by (simp add: generate_helm_def subscript2_missing_outer)

lemma helm_missing_name:
  "field p ''profile'' = Some pr \<Longrightarrow> is_dict pr \<Longrightarrow> field pr ''name'' = None \<Longrightarrow>
   generate_helm repr p w = (w, Inl (KeyError ''name''))"
  by (simp add: generate_helm_def subscript2_missing_inner)

lemma helm_missing_version:
  "field p ''profile'' = Some pr \<Longrightarrow> field pr ''name'' = Some name \<Longrightarrow>
   field p ''os'' = Some os \<Longrightarrow> field os ''distro'' = Some distro \<Longrightarrow>
   field os ''version'' = Some version \<Longrightarrow> field pr ''version'' = None \<Longrightarrow>
   generate_helm repr p w = (w, Inl (KeyError ''version''))"
  by (simp add: generate_helm_def subscript2_fields subscript2_missing_inner field_is_dict)

lemma policies_missing_network:
  "is_dict p \<Longrightarrow> field p ''network'' = None \<Longrightarrow>
   generate_network_policies repr p name w = (w, Inl (KeyError ''network''))"
  by (simp add: generate_network_policies_def subscript_missing)

lemma select_direction_missing:
  "\<forall>x\<in>set xs. field x ''direction'' \<noteq> None \<Longrightarrow> is_dict r \<Longrightarrow> field r ''direction'' = None \<Longrightarrow>
   select_direction d (xs @ r # ys) = Inl (KeyError ''direction'')"
  by (induction xs) (auto simp: subscript_field split: sum.splits)

lemma entries_loop_missing_protocol:
  "is_dict r \<Longrightarrow> (case field r peer of None \<Rightarrow> True | Some q \<Rightarrow> is_dict q) \<Longrightarrow>
   field r ''protocol'' = None \<Longrightarrow>
   entries_loop repr peer (r # rest) block = Inl (KeyError ''protocol'')"
  by (cases r) (auto split: option.splits elim: is_dict.elims)

lemma entries_loop_missing_port:
  "(case field r peer of None \<Rightarrow> True | Some q \<Rightarrow> is_dict q) \<Longrightarrow>
   field r ''protocol'' = Some protocol \<Longrightarrow> field r ''port'' = None \<Longrightarrow>
   entries_loop repr peer (r # rest) block = Inl (KeyError ''port'')"
  by (cases r) (auto split: option.splits elim: is_dict.elims)

lemma policies_defaults:
  assumes "field p ''network'' = Some (PDict nw)" and "field (PDict nw) ''rules'' = None"
  shows "generate_network_policies repr p name w =
           (print ''[OK] networkpolicy.yaml generated''
              (write_file networkpolicy_path
                 (networkpolicy_yaml
                    (policy_types_str (policy_types (network_value p ''default_deny_ingress'')
                                                    (network_value p ''default_deny_egress'')))
                    ''  ingress: []\<newline>'' ''  egress: []\<newline>'') w), Inr ())"
proof -
  have r: "network_rules p = PList []"
    using assms by (simp add: network_rules_def)
  show ?thesis
    using generate_network_policies_rules [OF assms(1) r, of repr name w]
    by (simp add: policy_document_def block_text_def)
qed

lemma main_missing_network:
  assumes "load_profile safe_load (profile_path argv) w = Inr p"
    and "field p ''os'' = Some os" and "field os ''distro'' = Some distro"
    and "field os ''version'' = Some version"
    and "field p ''packages'' = Some (PList (map PStr names))"
    and "field p ''profile'' = Some pr" and "field pr ''name'' = Some name"
    and "field pr ''version'' = Some prof_ver"
    and "field p ''network'' = None"
  shows "snd (main safe_load repr argv w) = Inl (KeyError ''network'')"
    and "files (fst (main safe_load repr argv w)) =
          (files w)(dockerfile_path \<mapsto>
                      dockerfile (py_str repr distro @ '':'' @ py_str repr version) (join_strs '' '' names),
                    chart_path \<mapsto> chart_yaml (py_str repr name) (py_str repr prof_ver),
                    values_path \<mapsto> values_yaml (py_str repr name) (image_tag repr distro name prof_ver),
                    namespace_path \<mapsto> namespace_yaml (py_str repr name),
                    deployment_path \<mapsto> deployment_yaml,
                    service_path \<mapsto> service_yaml)"
proof -
  have d: "generate_dockerfile repr p w0 =
           (print ''[OK] Dockerfile generated -> generated/Dockerfile''
              (write_file ''generated/Dockerfile''
                 (dockerfile (py_str repr distro @ '':'' @ py_str repr version) (join_strs '' '' names)) w0),
            Inr ())" for w0
    unfolding generate_dockerfile_def
    using assms(2-5) by (simp add: subscript2_fields subscript_field str_join_names)
  have dict: "is_dict p" using assms(2) by (rule field_is_dict)
  have g: "generate repr p w0 =
     (print ''[OK] service.yaml generated''
       (write_file ''generated/helm/templates/service.yaml'' service_yaml
       (print ''[OK] deployment.yaml generated''
       (write_file ''generated/helm/templates/deployment.yaml'' deployment_yaml
       (print ''[OK] namespace.yaml generated''
       (write_file ''generated/helm/templates/namespace.yaml'' (namespace_yaml (py_str repr name))
       (print ''[OK] values.yaml generated''
       (write_file ''generated/helm/values.yaml''
          (values_yaml (py_str repr name) (image_tag repr distro name prof_ver))
       (print ''[OK] Chart.yaml generated''
       (write_file ''generated/helm/Chart.yaml'' (chart_yaml (py_str repr name) (py_str repr prof_ver))
       (print ''[OK] Dockerfile generated -> generated/Dockerfile''
       (write_file ''generated/Dockerfile''
          (dockerfile (py_str repr distro @ '':'' @ py_str repr version) (join_strs '' '' names))
          w0))))))))))),
      Inl (KeyError ''network''))" for w0
    unfolding generate_def d generate_helm_def
    using assms(2-4,6-8)
    by (simp add: subscript2_fields Let_def policies_missing_network [OF dict assms(9)])
  show "snd (main safe_load repr argv w) = Inl (KeyError ''network'')"
    unfolding main_generate(2) [OF assms(1)] g by simp
  show "files (fst (main safe_load repr argv w)) =
          (files w)(dockerfile_path \<mapsto>
                      dockerfile (py_str repr distro @ '':'' @ py_str repr version) (join_strs '' '' names),
                    chart_path \<mapsto> chart_yaml (py_str repr name) (py_str repr prof_ver),
                    values_path \<mapsto> values_yaml (py_str repr name) (image_tag repr distro name prof_ver),
                    namespace_path \<mapsto> namespace_yaml (py_str repr name),
                    deployment_path \<mapsto> deployment_yaml,
                    service_path \<mapsto> service_yaml)"
    unfolding main_generate(1) [OF assms(1)] g
    by (simp add: print_def write_file_def dockerfile_path_def chart_path_def values_path_def
          namespace_path_def deployment_path_def service_path_def)
qed

lemma main_load_fails:
  "load_profile safe_load (profile_path argv) w = Inl e \<Longrightarrow>
   main safe_load repr argv w =
     (print (''Reading profile: '' @ profile_path argv @ ''\<newline>'')
        (print ''\<newline>=== Kubernetes Profile Generator ==='' w), Inl e)"
  unfolding main_def by (simp add: Let_def load_profile_print)

lemma main_reaches_policies:
  assumes "load_profile safe_load (profile_path argv) w = Inr p"
    and "field p ''os'' = Some os" and "field os ''distro'' = Some distro"
    and "field os ''version'' = Some version"
    and "field p ''packages'' = Some (PList (map PStr names))"
    and "field p ''profile'' = Some pr" and "field pr ''name'' = Some name"
    and "field pr ''version'' = Some prof_ver"
  shows "snd (main safe_load repr argv w) = snd (generate_network_policies repr p name w)"
proof -
  have d: "snd (generate_dockerfile repr p w0) = Inr ()" for w0
    unfolding generate_dockerfile_def
    using assms(2-5) by (simp add: subscript2_fields subscript_field str_join_names)
  define outcome where "outcome = snd (generate_network_policies repr p name w)"
  have n: "snd (generate_network_policies repr p name w0) = outcome" for w0
    unfolding outcome_def
    using generate_network_policies_overlay [of repr p name w0 empty_world]
      generate_network_policies_overlay [of repr p name w empty_world]
    by (simp add: overlay_empty)
  have h: "snd (generate_helm repr p w0) = outcome" for w0
    unfolding generate_helm_def
    using assms(2-4,6-8) by (simp add: subscript2_fields Let_def n)
  have "snd (generate repr p w) = outcome"
    unfolding generate_def using d [of w] h by (auto split: prod.splits sum.splits)
  then show ?thesis
    by (simp add: main_generate(2) [OF assms(1)] outcome_def)
qed

lemma entries_loop_prefix:
  "\<forall>x\<in>set as. emittable peer x \<Longrightarrow>
   entries_loop repr peer (as @ rest) block =
     entries_loop repr peer rest (block @ concat (map (rule_entry repr peer) as))"
proof (induction as arbitrary: block)
  case Nil
  then show ?case by simp
next
  case (Cons a as)
  from Cons.prems have e: "emittable peer a" and more: "\<forall>x\<in>set as. emittable peer x"
    by simp_all
  have one: "entries_loop repr peer (a # as @ rest) block =
             entries_loop repr peer (as @ rest) (block @ rule_entry repr peer a)"
    using entries_loop_concat [of "[a]" peer repr block] e
    by (cases a; cases "field a peer")
       (auto simp: emittable_def rule_entry_def peer_namespace_def rule_value_def
             split: option.splits elim: is_dict.elims)
  show ?case
    using one Cons.IH [OF more, of "block @ rule_entry repr peer a"] by simp
qed

lemma build_block_fails:
  assumes "\<forall>x\<in>set as. emittable peer x"
    and "\<And>block. entries_loop repr peer (r # rest) block = Inl e"
  shows "build_block repr direction peer (as @ r # rest) = Inl e"
  using assms by (simp add: build_block_def entries_loop_prefix)

lemma policies_missing_direction:
  assumes "field p ''network'' = Some (PDict nw) \<and> network_rules p = PList (xs @ r # ys) \<and>
    list_all (\<lambda>x. field x ''direction'' \<noteq> None) xs \<and> is_dict r \<and> field r ''direction'' = None"
  shows "generate_network_policies repr p name w = (w, Inl (KeyError ''direction''))"
proof -
  from assms have n: "field p ''network'' = Some (PDict nw)"
    and r: "network_rules p = PList (xs @ r # ys)"
    and s: "select_direction ''ingress'' (xs @ r # ys) = Inl (KeyError ''direction'')"
    by (simp_all add: select_direction_missing list_all_iff)
  show ?thesis
    unfolding generate_network_policies_unfold [OF n r] s by simp
qed

lemma policies_ingress_fails:
  assumes n: "field p ''network'' = Some (PDict nw)"
    and r: "network_rules p = PList (xs @ r # ys)"
    and v: "list_all (\<lambda>x. field x ''direction'' \<noteq> None) (xs @ ys)"
    and ei: "list_all (emittable ''from'') (filter (has_direction ''ingress'') xs)"
    and hi: "has_direction ''ingress'' r"
    and l: "\<And>block. entries_loop repr ''from'' (r # filter (has_direction ''ingress'') ys) block = Inl e"
  shows "generate_network_policies repr p name w = (w, Inl e)"
proof -
  have dir: "\<forall>x\<in>set (xs @ r # ys). field x ''direction'' \<noteq> None"
    using v hi has_direction_field by (auto simp: list_all_iff)
  have sel: "select_direction dd (xs @ r # ys) = Inr (filter (has_direction dd) (xs @ r # ys))" for dd
    using dir by (rule select_direction_filter)
  have b: "build_block repr ''ingress'' ''from''
             (filter (has_direction ''ingress'') xs @ r # filter (has_direction ''ingress'') ys) = Inl e"
    using ei l by (intro build_block_fails) (auto simp: list_all_iff)
  show ?thesis
    by (simp add: generate_network_policies_unfold [OF n r] sel hi b)
qed

lemma policies_egress_fails:
  assumes n: "field p ''network'' = Some (PDict nw)"
    and r: "network_rules p = PList (xs @ r # ys)"
    and v: "list_all (\<lambda>x. field x ''direction'' \<noteq> None) (xs @ ys)"
    and ei: "list_all (emittable ''from'') (filter (has_direction ''ingress'') (xs @ ys))"
    and ee: "list_all (emittable ''to'') (filter (has_direction ''egress'') xs)"
    and he: "has_direction ''egress'' r"
    and l: "\<And>block. entries_loop repr ''to'' (r # filter (has_direction ''egress'') ys) block = Inl e"
  shows "generate_network_policies repr p name w = (w, Inl e)"
proof -
  have dir: "\<forall>x\<in>set (xs @ r # ys). field x ''direction'' \<noteq> None"
    using v he has_direction_field by (auto simp: list_all_iff)
  have sel: "select_direction dd (xs @ r # ys) = Inr (filter (has_direction dd) (xs @ r # ys))" for dd
    using dir by (rule select_direction_filter)
  have ni: "\<not> has_direction ''ingress'' r"
    using he not_both_directions by blast
  have bi: "build_block repr ''ingress'' ''from''
              (filter (has_direction ''ingress'') xs @ filter (has_direction ''ingress'') ys) =
            Inr (block_text ''ingress'' (map (rule_entry repr ''from'')
              (filter (has_direction ''ingress'') xs @ filter (has_direction ''ingress'') ys)))"
    using ei build_block_text [of "filter (has_direction ''ingress'') (xs @ ys)" "''from''" repr "''ingress''"]
    by (simp add: list_all_iff)
  have b: "build_block repr ''egress'' ''to''
             (filter (has_direction ''egress'') xs @ r # filter (has_direction ''egress'') ys) = Inl e"
    using ee l by (intro build_block_fails) (auto simp: list_all_iff)
  show ?thesis
    by (simp add: generate_network_policies_unfold [OF n r] sel ni he bi b)
qed

lemma policies_ingress_missing_protocol:
  assumes "field p ''network'' = Some (PDict nw) \<and> network_rules p = PList (xs @ r # ys) \<and>
    list_all (\<lambda>x. field x ''direction'' \<noteq> None) (xs @ ys) \<and>
    list_all (emittable ''from'') (filter (has_direction ''ingress'') xs) \<and>
    has_direction ''ingress'' r \<and>
    (case field r ''from'' of None \<Rightarrow> True | Some q \<Rightarrow> is_dict q) \<and>
    field r ''protocol'' = None"
  shows "generate_network_policies repr p name w = (w, Inl (KeyError ''protocol''))"
proof -
  have "is_dict r" using assms by (auto simp: has_direction_def dest: field_is_dict)
  then have "\<forall>block. entries_loop repr ''from'' (r # filter (has_direction ''ingress'') ys) block =
             Inl (KeyError ''protocol'')"
    using assms entries_loop_missing_protocol by blast
  then show ?thesis
    using assms by (intro policies_ingress_fails [of p nw xs r ys]) auto
qed

lemma policies_ingress_missing_port:
  assumes "field p ''network'' = Some (PDict nw) \<and> network_rules p = PList (xs @ r # ys) \<and>
    list_all (\<lambda>x. field x ''direction'' \<noteq> None) (xs @ ys) \<and>
    list_all (emittable ''from'') (filter (has_direction ''ingress'') xs) \<and>
    has_direction ''ingress'' r \<and>
    (case field r ''from'' of None \<Rightarrow> True | Some q \<Rightarrow> is_dict q) \<and>
    field r ''protocol'' = Some protocol \<and> field r ''port'' = None"
  shows "generate_network_policies repr p name w = (w, Inl (KeyError ''port''))"
proof -
  have "\<forall>block. entries_loop repr ''from'' (r # filter (has_direction ''ingress'') ys) block =
             Inl (KeyError ''port'')"
    using assms entries_loop_missing_port by blast
  then show ?thesis
    using assms by (intro policies_ingress_fails [of p nw xs r ys]) auto
qed

lemma policies_egress_missing_protocol:
  assumes "field p ''network'' = Some (PDict nw) \<and> network_rules p = PList (xs @ r # ys) \<and>
    list_all (\<lambda>x. field x ''direction'' \<noteq> None) (xs @ ys) \<and>
    list_all (emittable ''from'') (filter (has_direction ''ingress'') (xs @ ys)) \<and>
    list_all (emittable ''to'') (filter (has_direction ''egress'') xs) \<and>
    has_direction ''egress'' r \<and>
    (case field r ''to'' of None \<Rightarrow> True | Some q \<Rightarrow> is_dict q) \<and>
    field r ''protocol'' = None"
  shows "generate_network_policies repr p name w = (w, Inl (KeyError ''protocol''))"
proof -
  have "is_dict r" using assms by (auto simp: has_direction_def dest: field_is_dict)
  then have "\<forall>block. entries_loop repr ''to'' (r # filter (has_direction ''egress'') ys) block =
             Inl (KeyError ''protocol'')"
    using assms entries_loop_missing_protocol by blast
  then show ?thesis
    using assms by (intro policies_egress_fails [of p nw xs r ys]) auto
qed

lemma policies_egress_missing_port:
  assumes "field p ''network'' = Some (PDict nw) \<and> network_rules p = PList (xs @ r # ys) \<and>
    list_all (\<lambda>x. field x ''direction'' \<noteq> None) (xs @ ys) \<and>
    list_all (emittable ''from'') (filter (has_direction ''ingress'') (xs @ ys)) \<and>
    list_all (emittable ''to'') (filter (has_direction ''egress'') xs) \<and>
    has_direction ''egress'' r \<and>
    (case field r ''to'' of None \<Rightarrow> True | Some q \<Rightarrow> is_dict q) \<and>
    field r ''protocol'' = Some protocol \<and> field r ''port'' = None"
  shows "generate_network_policies repr p name w = (w, Inl (KeyError ''port''))"
proof -
  have "\<forall>block. entries_loop repr ''to'' (r # filter (has_direction ''egress'') ys) block =
             Inl (KeyError ''port'')"
    using assms entries_loop_missing_port by blast
  then show ?thesis
    using assms by (intro policies_egress_fails [of p nw xs r ys]) auto
qed

lemma policies_defaults_text:
  assumes "field p ''network'' = Some (PDict nw) \<and> field (PDict nw) ''rules'' = None"
  shows "generate_network_policies repr p name w =
        (print ''[OK] networkpolicy.yaml generated''
           (write_file networkpolicy_path
              (concat [
                    ''# Policy 1: Default Deny\<newline>'',
                    ''apiVersion: networking.k8s.io/v1\<newline>'',
                    ''kind: NetworkPolicy\<newline>'',
                    ''metadata:\<newline>'',
                    ''  name: default-deny\<newline>'',
                    ''  namespace: {{ .Values.namespace }}\<newline>'',
                    ''spec:\<newline>'',
                    ''  podSelector: {}\<newline>'',
                    ''  policyTypes:\<newline>'',
                    (if truthy (network_value p ''default_deny_ingress'')
                      then (if truthy (network_value p ''default_deny_egress'')
                            then ''  - Ingress\<newline>  - Egress'' else ''  - Ingress'')
                      else (if truthy (network_value p ''default_deny_egress'') then ''  - Egress'' else [])),
                    ''\<newline>'',
                    ''---\<newline>'',
                    ''# Policy 2: Allow exceptions\<newline>'',
                    ''apiVersion: networking.k8s.io/v1\<newline>'',
                    ''kind: NetworkPolicy\<newline>'',
                    ''metadata:\<newline>'',
                    ''  name: {{ .Values.app.name }}-allow\<newline>'',
                    ''  namespace: {{ .Values.namespace }}\<newline>'',
                    ''spec:\<newline>'',
                    ''  podSelector:\<newline>'',
                    ''    matchLabels:\<newline>'',
                    ''      app: {{ .Values.app.name }}\<newline>'',
                    ''  policyTypes:\<newline>'',
                    (if truthy (network_value p ''default_deny_ingress'')
                      then (if truthy (network_value p ''default_deny_egress'')
                            then ''  - Ingress\<newline>  - Egress'' else ''  - Ingress'')
                      else (if truthy (network_value p ''default_deny_egress'') then ''  - Egress'' else [])),
                    ''\<newline>'',
                    ''  ingress: []\<newline>'',
                    ''  egress: []\<newline>'']) w), Inr ())"
proof -
  from assms have n: "field p ''network'' = Some (PDict nw)" and r: "field (PDict nw) ''rules'' = None"
    by simp_all
  show ?thesis
    unfolding policies_defaults [OF n r]
    by (simp add: networkpolicy_yaml_def policy_types_text)
qed



section \<open>Network policies\<close>

text \<open>
  Claim C1. For a profile whose network section is a mapping and whose rules are a list of
  valid rules, generation succeeds and writes the network policy document whose allow
  policy has, for either direction, one allow entry for each rule of that direction, in
  the order of the rules list; the entry of a rule carries the rule's peer namespace,
  protocol and port. Every valid rule has one of the two directions, so with \<open>N\<close> ingress
  and \<open>M\<close> egress rules there are \<open>N\<close> ingress and \<open>M\<close> egress entries, \<open>N + M\<close> being
  the number of rules.
\<close>

theorem allow_entries_follow_rules:
  assumes "field profile ''network'' = Some (PDict nw)"
    and "network_rules profile = PList rules"
    and "\<forall>r\<in>set rules. valid_rule r"
  shows "generate_network_policies repr profile name w =
           (print ''[OK] networkpolicy.yaml generated''
              (write_file networkpolicy_path
                 (networkpolicy_yaml
                    (policy_types_str (policy_types (network_value profile ''default_deny_ingress'')
                                                    (network_value profile ''default_deny_egress'')))
                    (block_text ''ingress''
                       (map (rule_entry repr ''from'') (filter (has_direction ''ingress'') rules)))
                    (block_text ''egress''
                       (map (rule_entry repr ''to'') (filter (has_direction ''egress'') rules))))
                 w), Inr ()) \<and>
         length (filter (has_direction ''ingress'') rules) +
         length (filter (has_direction ''egress'') rules) = length rules"
proof -
  have dir: "\<forall>r\<in>set rules. field r ''direction'' \<noteq> None"
    using assms(3) by (auto simp: valid_rule_def dest: has_direction_field)
  have ing: "\<forall>r\<in>set rules. has_direction ''ingress'' r \<longrightarrow> emittable ''from'' r"
    using assms(3) valid_rule_emittable(1) by blast
  have egr: "\<forall>r\<in>set rules. has_direction ''egress'' r \<longrightarrow> emittable ''to'' r"
    using assms(3) valid_rule_emittable(2) by blast
  have len: "length (filter (has_direction ''ingress'') rules) +
             length (filter (has_direction ''egress'') rules) = length rules"
    using assms(3) not_both_directions by (intro filter_two_length) (auto simp: valid_rule_def)
  show ?thesis
    using generate_network_policies_rules [OF assms(1,2) dir ing egr, of repr name w] len
    by (simp add: policy_document_def)
qed

theorem allow_entries_follow_rules_witness:
  "list_all valid_rule example_rules \<and>
   files (fst (generate_network_policies (\<lambda>v. []) (example_profile (PBool True) (PBool False) example_rules)
                 (PStr ''worker'') empty_world)) networkpolicy_path =
   Some (concat [
     ''# Policy 1: Default Deny\<newline>'',
     ''apiVersion: networking.k8s.io/v1\<newline>'',
     ''kind: NetworkPolicy\<newline>'',
     ''metadata:\<newline>'',
     ''  name: default-deny\<newline>'',
     ''  namespace: {{ .Values.namespace }}\<newline>'',
     ''spec:\<newline>'',
     ''  podSelector: {}\<newline>'',
     ''  policyTypes:\<newline>'',
     ''  - Ingress\<newline>'',
     ''---\<newline>'',
     ''# Policy 2: Allow exceptions\<newline>'',
     ''apiVersion: networking.k8s.io/v1\<newline>'',
     ''kind: NetworkPolicy\<newline>'',
     ''metadata:\<newline>'',
     ''  name: {{ .Values.app.name }}-allow\<newline>'',
     ''  namespace: {{ .Values.namespace }}\<newline>'',
     ''spec:\<newline>'',
     ''  podSelector:\<newline>'',
     ''    matchLabels:\<newline>'',
     ''      app: {{ .Values.app.name }}\<newline>'',
     ''  policyTypes:\<newline>'',
     ''  - Ingress\<newline>'',
     ''  ingress:\<newline>'',
     ''  - from:\<newline>'',
     ''    - namespaceSelector:\<newline>'',
     ''        matchLabels:\<newline>'',
     ''          kubernetes.io/metadata.name: monitoring\<newline>'',
     ''    ports:\<newline>'',
     ''    - protocol: TCP\<newline>'',
     ''      port: 9090\<newline>'',
     ''  - from:\<newline>'',
     ''    - namespaceSelector:\<newline>'',
     ''        matchLabels:\<newline>'',
     ''          kubernetes.io/metadata.name: frontend\<newline>'',
     ''    ports:\<newline>'',
     ''    - protocol: TCP\<newline>'',
     ''      port: 80\<newline>'',
     ''  egress:\<newline>'',
     ''  - to:\<newline>'',
     ''    - namespaceSelector:\<newline>'',
     ''        matchLabels:\<newline>'',
     ''          kubernetes.io/metadata.name: kube-system\<newline>'',
     ''    ports:\<newline>'',
     ''    - protocol: UDP\<newline>'',
     ''      port: 53\<newline>''])"
proof -
  have h1: "field (example_profile (PBool True) (PBool False) example_rules) ''network'' =
            Some (PDict (example_network (PBool True) (PBool False) example_rules))"
    by (simp add: example_profile_def)
  have h2: "network_rules (example_profile (PBool True) (PBool False) example_rules) = PList example_rules"
    by (simp add: network_rules_def example_profile_def example_network_def)
  have h3: "\<forall>r\<in>set example_rules. valid_rule r"
    by (simp add: example_rules_def valid_rule_def has_direction_def has_peer_def)
  show ?thesis
    using allow_entries_follow_rules [OF h1 h2 h3, of "\<lambda>v. []" "PStr ''worker''" empty_world] h3
    by (simp add: list_all_iff example_rules_def example_profile_def example_network_def has_direction_def network_value_def
          policy_types_def policy_types_str_def networkpolicy_yaml_def block_text_def rule_entry_def
          allow_entry_def peer_namespace_def rule_value_def dec_int_examples
          print_def write_file_def networkpolicy_path_def)
qed



text \<open>
  Claim C3. When generation of the network policies succeeds on a list of rules and no
  rule has a given direction, the allow policy carries the explicit empty list for that
  direction, \<^verbatim>\<open>ingress: []\<close> or \<^verbatim>\<open>egress: []\<close>, and the key is not left out. With no rule at
  all and both deny flags true the document is the total isolation: both policy types in
  both policies, and both lists empty.
\<close>

theorem empty_direction_explicit_list:
  assumes "field profile ''network'' = Some (PDict nw)"
    and "network_rules profile = PList rules"
    and "\<forall>r\<in>set rules. field r ''direction'' \<noteq> None"
    and "\<forall>r\<in>set rules. has_direction ''ingress'' r \<longrightarrow> emittable ''from'' r"
    and "\<forall>r\<in>set rules. has_direction ''egress'' r \<longrightarrow> emittable ''to'' r"
  shows "(filter (has_direction ''ingress'') rules = [] \<longrightarrow>
          generate_network_policies repr profile name w =
            (print ''[OK] networkpolicy.yaml generated''
               (write_file networkpolicy_path
                  (networkpolicy_yaml
                    (policy_types_str (policy_types (network_value profile ''default_deny_ingress'')
                                                  (network_value profile ''default_deny_egress'')))
                    ''  ingress: []\<newline>''
                    (block_text ''egress'' (map (rule_entry repr ''to'') (filter (has_direction ''egress'') rules)))) w), Inr ())) \<and>
         (filter (has_direction ''egress'') rules = [] \<longrightarrow>
          generate_network_policies repr profile name w =
            (print ''[OK] networkpolicy.yaml generated''
               (write_file networkpolicy_path
                  (networkpolicy_yaml
                    (policy_types_str (policy_types (network_value profile ''default_deny_ingress'')
                                                  (network_value profile ''default_deny_egress'')))
                    (block_text ''ingress'' (map (rule_entry repr ''from'') (filter (has_direction ''ingress'') rules)))
                    ''  egress: []\<newline>'') w), Inr ())) \<and>
         (rules = [] \<and> network_value profile ''default_deny_ingress'' = PBool True \<and>
          network_value profile ''default_deny_egress'' = PBool True \<longrightarrow>
          generate_network_policies repr profile name w =
            (print ''[OK] networkpolicy.yaml generated''
               (write_file networkpolicy_path
                  (concat [
                  ''# Policy 1: Default Deny\<newline>'',
                  ''apiVersion: networking.k8s.io/v1\<newline>'',
                  ''kind: NetworkPolicy\<newline>'',
                  ''metadata:\<newline>'',
                  ''  name: default-deny\<newline>'',
                  ''  namespace: {{ .Values.namespace }}\<newline>'',
                  ''spec:\<newline>'',
                  ''  podSelector: {}\<newline>'',
                  ''  policyTypes:\<newline>'',
                  ''  - Ingress\<newline>'',
                  ''  - Egress\<newline>'',
                  ''---\<newline>'',
                  ''# Policy 2: Allow exceptions\<newline>'',
                  ''apiVersion: networking.k8s.io/v1\<newline>'',
                  ''kind: NetworkPolicy\<newline>'',
                  ''metadata:\<newline>'',
                  ''  name: {{ .Values.app.name }}-allow\<newline>'',
                  ''  namespace: {{ .Values.namespace }}\<newline>'',
                  ''spec:\<newline>'',
                  ''  podSelector:\<newline>'',
                  ''    matchLabels:\<newline>'',
                  ''      app: {{ .Values.app.name }}\<newline>'',
                  ''  policyTypes:\<newline>'',
                  ''  - Ingress\<newline>'',
                  ''  - Egress\<newline>'',
                  ''  ingress: []\<newline>'',
                  ''  egress: []\<newline>'']) w), Inr ()))"
proof -
  note g = generate_network_policies_rules [OF assms, of repr name w]
  have a: "filter (has_direction ''ingress'') rules = [] \<Longrightarrow>
           block_text ''ingress'' (map (rule_entry repr ''from'') (filter (has_direction ''ingress'') rules)) =
           ''  ingress: []\<newline>''"
    by (simp add: block_text_def)
  have b: "filter (has_direction ''egress'') rules = [] \<Longrightarrow>
           block_text ''egress'' (map (rule_entry repr ''to'') (filter (has_direction ''egress'') rules)) =
           ''  egress: []\<newline>''"
    by (simp add: block_text_def)
  have first: "(filter (has_direction ''ingress'') rules = [] \<longrightarrow>
          generate_network_policies repr profile name w =
            (print ''[OK] networkpolicy.yaml generated''
               (write_file networkpolicy_path
                  (networkpolicy_yaml
                    (policy_types_str (policy_types (network_value profile ''default_deny_ingress'')
                                                  (network_value profile ''default_deny_egress'')))
                    ''  ingress: []\<newline>''
                    (block_text ''egress'' (map (rule_entry repr ''to'') (filter (has_direction ''egress'') rules)))) w), Inr ()))"
    using g a by (simp add: policy_document_def)
  have second: "(filter (has_direction ''egress'') rules = [] \<longrightarrow>
          generate_network_policies repr profile name w =
            (print ''[OK] networkpolicy.yaml generated''
               (write_file networkpolicy_path
                  (networkpolicy_yaml
                    (policy_types_str (policy_types (network_value profile ''default_deny_ingress'')
                                                  (network_value profile ''default_deny_egress'')))
                    (block_text ''ingress'' (map (rule_entry repr ''from'') (filter (has_direction ''ingress'') rules)))
                    ''  egress: []\<newline>'') w), Inr ()))"
    using g b by (simp add: policy_document_def)
  have third: "(rules = [] \<and> network_value profile ''default_deny_ingress'' = PBool True \<and>
          network_value profile ''default_deny_egress'' = PBool True \<longrightarrow>
          generate_network_policies repr profile name w =
            (print ''[OK] networkpolicy.yaml generated''
               (write_file networkpolicy_path
                  (concat [
                  ''# Policy 1: Default Deny\<newline>'',
                  ''apiVersion: networking.k8s.io/v1\<newline>'',
                  ''kind: NetworkPolicy\<newline>'',
                  ''metadata:\<newline>'',
                  ''  name: default-deny\<newline>'',
                  ''  namespace: {{ .Values.namespace }}\<newline>'',
                  ''spec:\<newline>'',
                  ''  podSelector: {}\<newline>'',
                  ''  policyTypes:\<newline>'',
                  ''  - Ingress\<newline>'',
                  ''  - Egress\<newline>'',
                  ''---\<newline>'',
                  ''# Policy 2: Allow exceptions\<newline>'',
                  ''apiVersion: networking.k8s.io/v1\<newline>'',
                  ''kind: NetworkPolicy\<newline>'',
                  ''metadata:\<newline>'',
                  ''  name: {{ .Values.app.name }}-allow\<newline>'',
                  ''  namespace: {{ .Values.namespace }}\<newline>'',
                  ''spec:\<newline>'',
                  ''  podSelector:\<newline>'',
                  ''    matchLabels:\<newline>'',
                  ''      app: {{ .Values.app.name }}\<newline>'',
                  ''  policyTypes:\<newline>'',
                  ''  - Ingress\<newline>'',
                  ''  - Egress\<newline>'',
                  ''  ingress: []\<newline>'',
                  ''  egress: []\<newline>'']) w), Inr ()))"
    unfolding isolation_text [symmetric] using g by (simp add: policy_document_def)
  show ?thesis
    using first second third by (intro conjI)
qed

theorem empty_direction_explicit_list_witness:
  "generate_network_policies (\<lambda>v. []) (example_profile (PBool True) (PBool True) [])
     (PStr ''worker'') empty_world =
   (\<lparr>files = [networkpolicy_path \<mapsto> concat [
                  ''# Policy 1: Default Deny\<newline>'',
                  ''apiVersion: networking.k8s.io/v1\<newline>'',
                  ''kind: NetworkPolicy\<newline>'',
                  ''metadata:\<newline>'',
                  ''  name: default-deny\<newline>'',
                  ''  namespace: {{ .Values.namespace }}\<newline>'',
                  ''spec:\<newline>'',
                  ''  podSelector: {}\<newline>'',
                  ''  policyTypes:\<newline>'',
                  ''  - Ingress\<newline>'',
                  ''  - Egress\<newline>'',
                  ''---\<newline>'',
                  ''# Policy 2: Allow exceptions\<newline>'',
                  ''apiVersion: networking.k8s.io/v1\<newline>'',
                  ''kind: NetworkPolicy\<newline>'',
                  ''metadata:\<newline>'',
                  ''  name: {{ .Values.app.name }}-allow\<newline>'',
                  ''  namespace: {{ .Values.namespace }}\<newline>'',
                  ''spec:\<newline>'',
                  ''  podSelector:\<newline>'',
                  ''    matchLabels:\<newline>'',
                  ''      app: {{ .Values.app.name }}\<newline>'',
                  ''  policyTypes:\<newline>'',
                  ''  - Ingress\<newline>'',
                  ''  - Egress\<newline>'',
                  ''  ingress: []\<newline>'',
                  ''  egress: []\<newline>'']],
      stdout = [''[OK] networkpolicy.yaml generated'']\<rparr>, Inr ())"
proof -
  have d: "\<forall>r\<in>set ([] :: pyval list). field r ''direction'' \<noteq> None"
    and i: "\<forall>r\<in>set ([] :: pyval list). has_direction ''ingress'' r \<longrightarrow> emittable ''from'' r"
    and e: "\<forall>r\<in>set ([] :: pyval list). has_direction ''egress'' r \<longrightarrow> emittable ''to'' r"
    by simp_all
  show ?thesis
    using conjunct2 [OF conjunct2 [OF
            empty_direction_explicit_list [where repr = "\<lambda>v. []" and name = "PStr ''worker''" and w = empty_world,
              OF example_network_field [of "PBool True" "PBool True" "[]"]
                 example_network_rules [of "PBool True" "PBool True" "[]"] d i e]]]
    by (simp add: example_network_values print_def write_file_def empty_world_def)
qed




text \<open>
  Claim C10. A rule whose \<^verbatim>\<open>direction\<close> is neither \<^verbatim>\<open>ingress\<close> nor \<^verbatim>\<open>egress\<close> is dropped
  without an error: both comprehensions, and the whole generation, give what they give on
  the rules list without that rule; the rule is in neither partition, and the two
  partitions together are strictly shorter than the rules list.
\<close>

theorem other_direction_dropped:
  assumes "field r0 ''direction'' = Some v" and "v \<noteq> PStr ''ingress''" and "v \<noteq> PStr ''egress''"
    and "field profile ''network'' = Some (PDict nw)"
    and "network_rules profile = PList (xs @ r0 # ys)"
    and "field profile' ''network'' = Some (PDict nw')"
    and "network_rules profile' = PList (xs @ ys)"
    and "network_value profile' ''default_deny_ingress'' = network_value profile ''default_deny_ingress''"
    and "network_value profile' ''default_deny_egress'' = network_value profile ''default_deny_egress''"
  shows "generate_network_policies repr profile name w =
           generate_network_policies repr profile' name w \<and>
         rules_of_direction ''ingress'' (PList (xs @ r0 # ys)) =
           rules_of_direction ''ingress'' (PList (xs @ ys)) \<and>
         rules_of_direction ''egress'' (PList (xs @ r0 # ys)) =
           rules_of_direction ''egress'' (PList (xs @ ys)) \<and>
         (\<forall>ingress_rules egress_rules.
            rules_of_direction ''ingress'' (PList (xs @ r0 # ys)) = Inr ingress_rules \<and>
            rules_of_direction ''egress'' (PList (xs @ r0 # ys)) = Inr egress_rules \<longrightarrow>
            r0 \<notin> set ingress_rules \<and> r0 \<notin> set egress_rules \<and>
            length ingress_rules + length egress_rules < length (xs @ r0 # ys))"
proof -
  have si: "select_direction ''ingress'' (xs @ r0 # ys) = select_direction ''ingress'' (xs @ ys)"
    using assms(1,2) by (rule select_direction_skip)
  have se: "select_direction ''egress'' (xs @ r0 # ys) = select_direction ''egress'' (xs @ ys)"
    using assms(1,3) by (rule select_direction_skip)
  have g: "generate_network_policies repr profile name w =
           generate_network_policies repr profile' name w"
    unfolding generate_network_policies_unfold [OF assms(4,5)]
      generate_network_policies_unfold [OF assms(6,7)] si se assms(8,9) ..
  have ni: "\<not> has_direction ''ingress'' r0" and ne: "\<not> has_direction ''egress'' r0"
    using assms(1-3) by (simp_all add: has_direction_def)
  have count: "r0 \<notin> set ins \<and> r0 \<notin> set outs \<and> length ins + length outs < length (xs @ r0 # ys)"
    if "rules_of_direction ''ingress'' (PList (xs @ r0 # ys)) = Inr ins"
      and "rules_of_direction ''egress'' (PList (xs @ r0 # ys)) = Inr outs" for ins outs
  proof -
    from that have s1: "select_direction ''ingress'' (xs @ r0 # ys) = Inr ins"
      and s2: "select_direction ''egress'' (xs @ r0 # ys) = Inr outs"
      by (simp_all add: rules_of_direction_def)
    have i: "ins = filter (has_direction ''ingress'') (xs @ r0 # ys)"
      using s1 by (rule select_direction_Inr)
    have e: "outs = filter (has_direction ''egress'') (xs @ r0 # ys)"
      using s2 by (rule select_direction_Inr)
    have "length (filter (has_direction ''ingress'') (xs @ ys)) +
          length (filter (has_direction ''egress'') (xs @ ys)) \<le> length (xs @ ys)"
      using not_both_directions by (intro filter_two_length_le) blast
    then show ?thesis
      using ni ne unfolding i e by simp
  qed
  show ?thesis
    using g si se count by (simp add: rules_of_direction_def)
qed

theorem other_direction_dropped_witness:
  "field sideways_rule ''direction'' = Some (PStr ''both'') \<and>
   length (example_rules @ sideways_rule # []) = 4 \<and>
   rules_of_direction ''ingress'' (PList (example_rules @ sideways_rule # [])) =
     Inr (filter (has_direction ''ingress'') example_rules) \<and>
   rules_of_direction ''egress'' (PList (example_rules @ sideways_rule # [])) =
     Inr (filter (has_direction ''egress'') example_rules) \<and>
   generate_network_policies (\<lambda>v. [])
     (example_profile (PBool True) (PBool False) (example_rules @ sideways_rule # []))
     (PStr ''worker'') empty_world =
   (\<lparr>files = [networkpolicy_path \<mapsto>
        networkpolicy_yaml ''  - Ingress''
          (''  ingress:\<newline>'' @ allow_entry ''from'' ''monitoring'' ''TCP'' ''9090''
                                   @ allow_entry ''from'' ''frontend'' ''TCP'' ''80'')
          (''  egress:\<newline>'' @ allow_entry ''to'' ''kube-system'' ''UDP'' ''53'')],
      stdout = [''[OK] networkpolicy.yaml generated'']\<rparr>, Inr ())"
proof -
  have d: "field sideways_rule ''direction'' = Some (PStr ''both'')"
    by (simp add: sideways_rule_def)
  have n: "PStr ''both'' \<noteq> PStr ''ingress''" "PStr ''both'' \<noteq> PStr ''egress''"
    by simp_all
  note c = other_direction_dropped [where repr = "\<lambda>v. []" and name = "PStr ''worker''" and w = empty_world,
      OF d n
         example_network_field [of "PBool True" "PBool False" "example_rules @ sideways_rule # []"]
         example_network_rules [of "PBool True" "PBool False" "example_rules @ sideways_rule # []"]
         example_network_field [of "PBool True" "PBool False" "example_rules @ []"]
         example_network_rules [of "PBool True" "PBool False" "example_rules @ []"]]
  have v: "\<forall>r\<in>set example_rules. field r ''direction'' \<noteq> None"
    using example_rules_valid valid_rule_direction by (auto simp: list_all_iff)
  have sel: "rules_of_direction dir (PList (example_rules @ [])) =
             Inr (filter (has_direction dir) example_rules)" for dir
    using v by (simp add: rules_of_direction_def select_direction_filter)
  have pts: "policy_types_str (policy_types (PBool True) (PBool False)) = ''  - Ingress''"
    by (simp add: policy_types_def policy_types_str_def)
  have g: "generate_network_policies (\<lambda>v. [])
     (example_profile (PBool True) (PBool False) (example_rules @ []))
     (PStr ''worker'') empty_world =
   (\<lparr>files = [networkpolicy_path \<mapsto>
        networkpolicy_yaml ''  - Ingress''
          (''  ingress:\<newline>'' @ allow_entry ''from'' ''monitoring'' ''TCP'' ''9090''
                                   @ allow_entry ''from'' ''frontend'' ''TCP'' ''80'')
          (''  egress:\<newline>'' @ allow_entry ''to'' ''kube-system'' ''UDP'' ''53'')],
      stdout = [''[OK] networkpolicy.yaml generated'']\<rparr>, Inr ())"
    using valid_rules_generate [OF example_rules_valid, of "\<lambda>v. []" "PBool True" "PBool False"
            "PStr ''worker''" empty_world]
    by (simp add: policy_document_def example_network_values example_entries pts block_text_def
          print_def write_file_def empty_world_def)
  have len: "length (example_rules @ sideways_rule # []) = 4"
    by (simp add: example_rules_def)
  from c have
    c1: "generate_network_policies (\<lambda>v. [])
           (example_profile (PBool True) (PBool False) (example_rules @ sideways_rule # []))
           (PStr ''worker'') empty_world =
         generate_network_policies (\<lambda>v. [])
           (example_profile (PBool True) (PBool False) (example_rules @ []))
           (PStr ''worker'') empty_world"
    and c2: "rules_of_direction ''ingress'' (PList (example_rules @ sideways_rule # [])) =
             rules_of_direction ''ingress'' (PList (example_rules @ []))"
    and c3: "rules_of_direction ''egress'' (PList (example_rules @ sideways_rule # [])) =
             rules_of_direction ''egress'' (PList (example_rules @ []))"
    by (simp_all add: example_network_values)
  show ?thesis
    unfolding c1 c2 c3 sel g using d len by (intro conjI) simp_all
qed

section \<open>The chart\<close>

text \<open>
  Claim C6. For a profile whose distro, name and profile version are strings, the values
  document that \<^verbatim>\<open>generate_helm\<close> writes carries the image tag
  \<open>distro @ ''-'' @ name @ ''-v'' @ version\<close>, between double quotes on the \<^verbatim>\<open>tag\<close> line. The
  version of the tag is \<^verbatim>\<open>profile.version\<close>; \<^verbatim>\<open>os.version\<close> is read but not used in it. The
  strings need not be non-empty, and the document is written even when the network
  policies that follow fail.
\<close>

theorem image_tag_in_values:
  assumes "field profile ''profile'' = Some pr"
    and "field pr ''name'' = Some (PStr name)"
    and "field pr ''version'' = Some (PStr version)"
    and "field profile ''os'' = Some os"
    and "field os ''distro'' = Some (PStr distro)"
    and "field os ''version'' = Some os_version"
  shows \<open>files (fst (generate_helm repr profile w)) values_path = Some (concat [
     ''replicaCount: 1\<newline>'',
     ''\<newline>'',
     ''image:\<newline>'',
     ''  repository: YOUR_DOCKERHUB_USERNAME/'', name, ''\<newline>'',
     ''  tag: "'', distro @ ''-'' @ name @ ''-v'' @ version, ''"\<newline>'',
     ''  pullPolicy: IfNotPresent\<newline>'',
     ''\<newline>'',
     ''namespace: '', name, ''\<newline>'',
     ''\<newline>'',
     ''service:\<newline>'',
     ''  type: ClusterIP\<newline>'',
     ''  port: 80\<newline>'',
     ''\<newline>'',
     ''app:\<newline>'',
     ''  name: '', name, ''\<newline>''])\<close>
proof -
  note f = generate_helm_files(2) [OF subscript2_fields [OF assms(1,2)] subscript2_fields [OF assms(4,5)]
      subscript2_fields [OF assms(4,6)] subscript2_fields [OF assms(1,3)], of repr w]
  show ?thesis
    unfolding f by (simp add: values_yaml_def image_tag_def)
qed

theorem image_tag_in_values_witness:
  \<open>files (fst (generate_helm (\<lambda>v. []) (example_profile (PBool True) (PBool False) example_rules)
            empty_world)) values_path = Some (concat [
     ''replicaCount: 1\<newline>'',
     ''\<newline>'',
     ''image:\<newline>'',
     ''  repository: YOUR_DOCKERHUB_USERNAME/worker\<newline>'',
     ''  tag: "ubuntu-worker-v1"\<newline>'',
     ''  pullPolicy: IfNotPresent\<newline>'',
     ''\<newline>'',
     ''namespace: worker\<newline>'',
     ''\<newline>'',
     ''service:\<newline>'',
     ''  type: ClusterIP\<newline>'',
     ''  port: 80\<newline>'',
     ''\<newline>'',
     ''app:\<newline>'',
     ''  name: worker\<newline>''])\<close>
  using image_tag_in_values [where repr = "\<lambda>v. []" and w = empty_world,
            OF example_fields(1) [of "PBool True" "PBool False" example_rules] example_fields(3,4)
               example_fields(2) [of "PBool True" "PBool False" example_rules] example_fields(5,6)]
  by simp

text \<open>
  Claim C5 says that in the namespace, deployment and service manifests every
  resource-specific field is a chart-template reference and none is a literal fixed at
  generation time. The namespace manifest is an f-string over the profile name, and the
  container port of the deployment is the literal 80: for the profile named
  \<^verbatim>\<open>worker\<close> the namespace manifest reads \<^verbatim>\<open>name: worker\<close>.
\<close>

theorem namespace_name_baked_in:
  "files (fst (generate_helm plain_repr (example_profile (PBool True) (PBool False) example_rules)
            empty_world)) namespace_path =
     Some (concat [
       ''apiVersion: v1\<newline>'',
       ''kind: Namespace\<newline>'',
       ''metadata:\<newline>'',
       ''  name: worker\<newline>'']) \<and>
   files (fst (generate_helm plain_repr (example_profile (PBool True) (PBool False) example_rules)
            empty_world)) deployment_path = Some deployment_yaml \<and>
   text_lines deployment_yaml ! 22 = ''            - containerPort: 80''"
proof -
  note f = generate_helm_files(3,4) [where repr = plain_repr and w = empty_world,
      OF subscript2_fields [OF example_fields(1) [of "PBool True" "PBool False" example_rules] example_fields(3)]
         subscript2_fields [OF example_fields(2) [of "PBool True" "PBool False" example_rules] example_fields(5)]
         subscript2_fields [OF example_fields(2) [of "PBool True" "PBool False" example_rules] example_fields(6)]
         subscript2_fields [OF example_fields(1) [of "PBool True" "PBool False" example_rules] example_fields(4)]]
  show ?thesis
    unfolding f deployment_lines by (simp add: namespace_yaml_def)
qed

text \<open>
  Claim C5, amended. For every profile that has a name, a profile version, a distro and an
  OS version, the deployment and service manifests are the same fixed texts, in which the
  resource name, the namespace, the replica count, the image reference, the pull policy,
  the service port and the service type are references \<^verbatim>\<open>{{ .Values... }}\<close> resolved at
  install time, and the container port and target port are the literal 80; the name in
  the namespace manifest is the profile name, inserted at generation time.
\<close>

theorem manifest_fields:
  assumes "field profile ''profile'' = Some pr"
    and "field pr ''name'' = Some name"
    and "field pr ''version'' = Some prof_ver"
    and "field profile ''os'' = Some os"
    and "field os ''distro'' = Some distro"
    and "field os ''version'' = Some version"
  shows \<open>files (fst (generate_helm repr profile w)) namespace_path =
           Some (concat [
             ''apiVersion: v1\<newline>'',
             ''kind: Namespace\<newline>'',
             ''metadata:\<newline>'',
             ''  name: '', py_str repr name, ''\<newline>'']) \<and>
         map_option text_lines (files (fst (generate_helm repr profile w)) deployment_path) =
           Some [
             ''apiVersion: apps/v1'',
             ''kind: Deployment'',
             ''metadata:'',
             ''  name: {{ .Values.app.name }}'',
             ''  namespace: {{ .Values.namespace }}'',
             ''  labels:'',
             ''    app: {{ .Values.app.name }}'',
             ''spec:'',
             ''  replicas: {{ .Values.replicaCount }}'',
             ''  selector:'',
             ''    matchLabels:'',
             ''      app: {{ .Values.app.name }}'',
             ''  template:'',
             ''    metadata:'',
             ''      labels:'',
             ''        app: {{ .Values.app.name }}'',
             ''    spec:'',
             ''      containers:'',
             ''        - name: {{ .Values.app.name }}'',
             ''          image: "{{ .Values.image.repository }}:{{ .Values.image.tag }}"'',
             ''          imagePullPolicy: {{ .Values.image.pullPolicy }}'',
             ''          ports:'',
             ''            - containerPort: 80'',
             ''          command: ["/bin/sh", "-c", "while true; do sleep 3600; done"]'',
             []] \<and>
         map_option text_lines (files (fst (generate_helm repr profile w)) service_path) =
           Some [
             ''apiVersion: v1'',
             ''kind: Service'',
             ''metadata:'',
             ''  name: {{ .Values.app.name }}-svc'',
             ''  namespace: {{ .Values.namespace }}'',
             ''spec:'',
             ''  selector:'',
             ''    app: {{ .Values.app.name }}'',
             ''  ports:'',
             ''    - protocol: TCP'',
             ''      port: {{ .Values.service.port }}'',
             ''      targetPort: 80'',
             ''  type: {{ .Values.service.type }}'',
             []]\<close>
proof -
  note f = generate_helm_files(3,4,5) [OF subscript2_fields [OF assms(1,2)]
      subscript2_fields [OF assms(4,5)] subscript2_fields [OF assms(4,6)]
      subscript2_fields [OF assms(1,3)], of repr w]
  have n: "namespace_yaml (py_str repr name) = concat [
             ''apiVersion: v1\<newline>'',
             ''kind: Namespace\<newline>'',
             ''metadata:\<newline>'',
             ''  name: '', py_str repr name, ''\<newline>'']"
    by (simp add: namespace_yaml_def)
  show ?thesis
    unfolding f n option.map deployment_lines service_lines by (intro conjI refl)
qed

theorem manifest_fields_witness:
  \<open>files (fst (generate_helm (\<lambda>v. []) minimal_profile empty_world)) namespace_path =
     Some (concat [
       ''apiVersion: v1\<newline>'',
       ''kind: Namespace\<newline>'',
       ''metadata:\<newline>'',
       ''  name: worker\<newline>'']) \<and>
   map_option text_lines (files (fst (generate_helm (\<lambda>v. []) minimal_profile empty_world)) service_path) =
     Some [
       ''apiVersion: v1'',
       ''kind: Service'',
       ''metadata:'',
       ''  name: {{ .Values.app.name }}-svc'',
       ''  namespace: {{ .Values.namespace }}'',
       ''spec:'',
       ''  selector:'',
       ''    app: {{ .Values.app.name }}'',
       ''  ports:'',
       ''    - protocol: TCP'',
       ''      port: {{ .Values.service.port }}'',
       ''      targetPort: 80'',
       ''  type: {{ .Values.service.type }}'',
       []]\<close>
proof -
  have p: "field minimal_profile ''profile'' =
             Some (PDict [(''name'', PStr ''worker''), (''version'', PStr ''1'')])"
    and os: "field minimal_profile ''os'' =
             Some (PDict [(''distro'', PStr ''ubuntu''), (''version'', PStr ''22.04'')])"
    by (simp_all add: minimal_profile_def)
  note c = manifest_fields [where repr = "\<lambda>v. []" and w = empty_world, OF p example_fields(3,4) os example_fields(5,6)]
  from conjunct1 [OF c] conjunct2 [OF conjunct2 [OF c]] show ?thesis
    by simp
qed

section \<open>The build file\<close>

text \<open>
  Claim C9. With \<^verbatim>\<open>os.distro\<close>, \<^verbatim>\<open>os.version\<close> and a list of package names, build-file
  generation succeeds and the install line invokes the package manager with the names
  joined by single spaces; for the empty list the step is still there, with no name
  between \<^verbatim>\<open>apt-get install -y\<close> and the \<^verbatim>\<open>&&\<close> that follows (\<open>bs\<close> is the backslash that
  continues the line).
\<close>

theorem empty_packages_install_step:
  assumes "field profile ''os'' = Some os"
    and "field os ''distro'' = Some distro"
    and "field os ''version'' = Some version"
    and "field profile ''packages'' = Some (PList (map PStr names))"
  shows \<open>generate_dockerfile repr profile w =
           (print ''[OK] Dockerfile generated -> generated/Dockerfile''
              (write_file ''generated/Dockerfile'' (concat [
                 ''FROM '', py_str repr distro, '':'', py_str repr version, ''\<newline>'',
                 ''\<newline>'',
                 ''RUN apt-get update && '', bs, ''\<newline>'',
                 ''    apt-get install -y '', join_strs '' '' names, '' && '', bs, ''\<newline>'',
                 ''    rm -rf /var/lib/apt/lists/*\<newline>'',
                 ''\<newline>'',
                 ''CMD ["/bin/sh", "-c", "while true; do sleep 3600; done"]\<newline>'']) w),
            Inr ()) \<and>
         (names = [] \<longrightarrow>
          generate_dockerfile repr profile w =
           (print ''[OK] Dockerfile generated -> generated/Dockerfile''
              (write_file ''generated/Dockerfile'' (concat [
                 ''FROM '', py_str repr distro, '':'', py_str repr version, ''\<newline>'',
                 ''\<newline>'',
                 ''RUN apt-get update && '', bs, ''\<newline>'',
                 ''    apt-get install -y  && '', bs, ''\<newline>'',
                 ''    rm -rf /var/lib/apt/lists/*\<newline>'',
                 ''\<newline>'',
                 ''CMD ["/bin/sh", "-c", "while true; do sleep 3600; done"]\<newline>'']) w),
            Inr ()))\<close>
proof -
  have d: "subscript2 profile ''os'' ''distro'' = Inr distro"
    and v: "subscript2 profile ''os'' ''version'' = Inr version"
    using assms(1-3) by (simp_all add: subscript2_fields)
  have p: "subscript profile ''packages'' = Inr (PList (map PStr names))"
    using assms(4) by (simp add: subscript_field)
  have g: "generate_dockerfile repr profile w =
           (print ''[OK] Dockerfile generated -> generated/Dockerfile''
              (write_file ''generated/Dockerfile''
                 (dockerfile (py_str repr distro @ '':'' @ py_str repr version) (join_strs '' '' names)) w),
            Inr ())"
    unfolding generate_dockerfile_def by (simp add: d v p str_join_names)
  show ?thesis
    unfolding g by (simp add: dockerfile_def)
qed

theorem empty_packages_install_step_witness:
  \<open>generate_dockerfile (\<lambda>v. []) minimal_profile empty_world =
     (\<lparr>files = [''generated/Dockerfile'' \<mapsto> concat [
                 ''FROM ubuntu:22.04\<newline>'',
                 ''\<newline>'',
                 ''RUN apt-get update && '', bs, ''\<newline>'',
                 ''    apt-get install -y  && '', bs, ''\<newline>'',
                 ''    rm -rf /var/lib/apt/lists/*\<newline>'',
                 ''\<newline>'',
                 ''CMD ["/bin/sh", "-c", "while true; do sleep 3600; done"]\<newline>'']],
        stdout = [''[OK] Dockerfile generated -> generated/Dockerfile'']\<rparr>, Inr ())\<close>
proof -
  have os: "field minimal_profile ''os'' =
            Some (PDict [(''distro'', PStr ''ubuntu''), (''version'', PStr ''22.04'')])"
    and pk: "field minimal_profile ''packages'' = Some (PList (map PStr []))"
    by (simp_all add: minimal_profile_def)
  have d: "field (PDict [(''distro'', PStr ''ubuntu''), (''version'', PStr ''22.04'')]) ''distro'' =
           Some (PStr ''ubuntu'')"
    and v: "field (PDict [(''distro'', PStr ''ubuntu''), (''version'', PStr ''22.04'')]) ''version'' =
           Some (PStr ''22.04'')"
    by simp_all
  show ?thesis
    using mp [OF conjunct2 [OF empty_packages_install_step [OF os d v pk, of "\<lambda>v. []" empty_world]] refl]
    by (simp add: print_def write_file_def empty_world_def)
qed

section \<open>The whole run\<close>

text \<open>
  Claim C7. What a run writes is a function of the profile document alone: for a profile
  there are one set of files \<open>delta\<close>, all of them artifacts, and one outcome such that
  every run of \<^verbatim>\<open>main\<close> that loads this profile, from whatever world and command line,
  leaves the files of the world with \<open>delta\<close> laid over them and ends with that outcome;
  a successful run writes all seven artifacts. So two runs on the same profile give the
  same content for every artifact, and a second run right after the first (the profile
  not being read from one of the artifact paths) changes no file.
\<close>

theorem generation_pure:
  "\<exists>delta outcome.
     dom delta \<subseteq> set artifact_paths \<and>
     (outcome = Inr () \<longrightarrow> dom delta = set artifact_paths) \<and>
     (\<forall>argv w.
        load_profile safe_load (profile_path argv) w = Inr profile \<longrightarrow>
        files (fst (main safe_load repr argv w)) = files w ++ delta \<and>
        snd (main safe_load repr argv w) = outcome) \<and>
     (\<forall>argv w.
        load_profile safe_load (profile_path argv) w = Inr profile \<and>
        profile_path argv \<notin> set artifact_paths \<longrightarrow>
        files (fst (main safe_load repr argv (fst (main safe_load repr argv w)))) =
          files (fst (main safe_load repr argv w)) \<and>
        snd (main safe_load repr argv (fst (main safe_load repr argv w))) =
          snd (main safe_load repr argv w))"
proof -
  let ?delta = "files (fst (generate repr profile empty_world))"
  let ?outcome = "snd (generate repr profile empty_world)"
  have sub: "dom ?delta \<subseteq> set artifact_paths"
    and full: "?outcome = Inr () \<longrightarrow> dom ?delta = set artifact_paths"
    using generate_dom [of repr profile empty_world] by (simp_all add: empty_world_def)
  have once: "files (fst (main safe_load repr argv w)) = files w ++ ?delta \<and>
              snd (main safe_load repr argv w) = ?outcome"
    if "load_profile safe_load (profile_path argv) w = Inr profile" for argv w
    using main_generate [OF that, of repr] generate_delta [of repr profile w]
    by (simp add: files_overlay)
  have twice: "files (fst (main safe_load repr argv (fst (main safe_load repr argv w)))) =
                 files (fst (main safe_load repr argv w)) \<and>
               snd (main safe_load repr argv (fst (main safe_load repr argv w))) =
                 snd (main safe_load repr argv w)"
    if l: "load_profile safe_load (profile_path argv) w = Inr profile"
      and p: "profile_path argv \<notin> set artifact_paths" for argv w
  proof -
    let ?w1 = "fst (main safe_load repr argv w)"
    have f1: "files ?w1 = files w ++ ?delta" using once [OF l] by simp
    have "?delta (profile_path argv) = None" using sub p by blast
    then have "files ?w1 (profile_path argv) = files w (profile_path argv)"
      unfolding f1 by (simp add: map_add_def)
    then have l1: "load_profile safe_load (profile_path argv) ?w1 = Inr profile"
      using l by (simp add: load_profile_def)
    have idem: "(files w ++ ?delta) ++ ?delta = files w ++ ?delta"
      by (simp add: map_add_def fun_eq_iff split: option.splits)
    show ?thesis
      using once [OF l1] once [OF l] idem by simp
  qed
  show ?thesis
    using sub full once twice by blast
qed

theorem generation_pure_witness:
  "\<exists>delta.
     dom delta = set artifact_paths \<and>
     files (fst (main example_loader (\<lambda>v. []) [''generate.py''] fresh_world)) =
       files fresh_world ++ delta \<and>
     files (fst (main example_loader (\<lambda>v. []) [''generate.py'', ''p.yaml''] used_world)) =
       files used_world ++ delta \<and>
     snd (main example_loader (\<lambda>v. []) [''generate.py''] fresh_world) = Inr () \<and>
     snd (main example_loader (\<lambda>v. []) [''generate.py'', ''p.yaml''] used_world) = Inr () \<and>
     files (fst (main example_loader (\<lambda>v. []) [''generate.py'']
                  (fst (main example_loader (\<lambda>v. []) [''generate.py''] fresh_world)))) =
       files (fst (main example_loader (\<lambda>v. []) [''generate.py''] fresh_world))"
proof -
  let ?p = "example_profile (PBool True) (PBool False) example_rules"
  have la: "load_profile example_loader (profile_path [''generate.py'']) fresh_world = Inr ?p"
    by (simp add: load_profile_def profile_path_def fresh_world_def example_loader_def)
  have lb: "load_profile example_loader (profile_path [''generate.py'', ''p.yaml'']) used_world = Inr ?p"
    by (simp add: load_profile_def profile_path_def used_world_def example_loader_def)
  have pa: "profile_path [''generate.py''] \<notin> set artifact_paths"
    by (simp add: profile_path_def artifact_paths_def dockerfile_path_def chart_path_def
          values_path_def namespace_path_def deployment_path_def service_path_def
          networkpolicy_path_def)
  have ok: "snd (main example_loader (\<lambda>v. []) [''generate.py''] fresh_world) = Inr ()"
  proof -
    have d: "snd (generate_dockerfile (\<lambda>v. []) ?p fresh_world) = Inr ()"
      by (simp add: generate_dockerfile_def example_profile_def subscript2_def str_join_def)
    have h: "snd (generate_helm (\<lambda>v. []) ?p w) = Inr ()" for w
      unfolding generate_helm_def
      by (simp add: subscript2_fields [OF example_fields(1) example_fields(3)]
            subscript2_fields [OF example_fields(1) example_fields(4)]
            subscript2_fields [OF example_fields(2) example_fields(5)]
            subscript2_fields [OF example_fields(2) example_fields(6)]
            Let_def valid_rules_generate [OF example_rules_valid])
    show ?thesis
      unfolding main_generate(2) [OF la] generate_def
      using d h by (auto split: prod.splits sum.splits)
  qed
  from generation_pure [of example_loader ?p "\<lambda>v. []"] obtain delta outcome where
      full: "outcome = Inr () \<longrightarrow> dom delta = set artifact_paths"
    and once: "\<And>argv w. load_profile example_loader (profile_path argv) w = Inr ?p \<Longrightarrow>
        files (fst (main example_loader (\<lambda>v. []) argv w)) = files w ++ delta \<and>
        snd (main example_loader (\<lambda>v. []) argv w) = outcome"
    and twice: "\<And>argv w. load_profile example_loader (profile_path argv) w = Inr ?p \<Longrightarrow>
        profile_path argv \<notin> set artifact_paths \<Longrightarrow>
        files (fst (main example_loader (\<lambda>v. []) argv (fst (main example_loader (\<lambda>v. []) argv w)))) =
          files (fst (main example_loader (\<lambda>v. []) argv w))"
    by blast
  from once [OF la] ok have o: "outcome = Inr ()" by simp
  show ?thesis
    using full o once [OF la] once [OF lb] twice [OF la pa] by (intro exI [of _ delta]) simp
qed

text \<open>
  Claim C8 says that every well-formed document missing a required field makes
  generation fail with an absent-key error. The rules and the two deny flags, fields of
  the profile all the same, are read with a default: a profile whose network section has
  none of them is generated without an error.
\<close>

theorem missing_rules_no_error:
  "field minimal_profile ''network'' = Some (PDict []) \<and>
   field (PDict []) ''rules'' = None \<and>
   field (PDict []) ''default_deny_ingress'' = None \<and>
   field (PDict []) ''default_deny_egress'' = None \<and>
   load_profile minimal_loader (profile_path [''generate.py'']) fresh_world = Inr minimal_profile \<and>
   snd (main minimal_loader plain_repr [''generate.py''] fresh_world) = Inr ()"
proof -
  have l: "load_profile minimal_loader (profile_path [''generate.py'']) fresh_world = Inr minimal_profile"
    by (simp add: load_profile_def profile_path_def fresh_world_def minimal_loader_def)
  have n: "field minimal_profile ''network'' = Some (PDict [])"
    by (simp add: minimal_profile_def)
  have d: "snd (generate_dockerfile plain_repr minimal_profile w) = Inr ()" for w
    by (simp add: generate_dockerfile_def minimal_profile_def subscript2_def str_join_def)
  have h: "snd (generate_helm plain_repr minimal_profile w) = Inr ()" for w
  proof -
    have s: "subscript2 minimal_profile ''profile'' ''name'' = Inr (PStr ''worker'')"
      "subscript2 minimal_profile ''os'' ''distro'' = Inr (PStr ''ubuntu'')"
      "subscript2 minimal_profile ''os'' ''version'' = Inr (PStr ''22.04'')"
      "subscript2 minimal_profile ''profile'' ''version'' = Inr (PStr ''1'')"
      by (simp_all add: minimal_profile_def subscript2_def)
    show ?thesis
      unfolding generate_helm_def by (simp add: s Let_def policies_defaults [OF n])
  qed
  have "snd (generate plain_repr minimal_profile fresh_world) = Inr ()"
    unfolding generate_def using d [of fresh_world] h by (auto split: prod.splits sum.splits)
  then show ?thesis
    using l n by (simp add: main_generate(2) [OF l])
qed

text \<open>
  Claim C8, amended. The loader, and \<^verbatim>\<open>main\<close> with it, fails when there is no file at the
  path or the document does not parse, writing nothing, and hands any parsed document to
  the generators as it is. The fields read by subscription raise \<^verbatim>\<open>KeyError\<close> when absent
  from their mapping, at the access and not before: \<^verbatim>\<open>os\<close>, \<^verbatim>\<open>os.distro\<close>, \<^verbatim>\<open>os.version\<close>,
  \<^verbatim>\<open>packages\<close> in the build file generator; \<^verbatim>\<open>profile\<close>, \<^verbatim>\<open>profile.name\<close>,
  \<^verbatim>\<open>profile.version\<close> in the chart generator; \<^verbatim>\<open>network\<close> after the build file and the
  first five chart files have been written. When the build file and chart fields are
  there, \<^verbatim>\<open>main\<close> ends as the network policy generator does, and that one fails, writing
  nothing, with \<^verbatim>\<open>KeyError\<close> for \<^verbatim>\<open>direction\<close> at the first rule without one; for
  \<^verbatim>\<open>protocol\<close>, or \<^verbatim>\<open>port\<close> when the protocol is there, at the first ingress rule that
  lacks it, every rule having a direction; and likewise at the first egress rule that
  lacks it, the ingress rules being complete. The fields read with a default,
  \<^verbatim>\<open>network.rules\<close> and the two deny flags, raise nothing when absent: the document is then
  written with an empty list under \<^verbatim>\<open>ingress\<close> and \<^verbatim>\<open>egress\<close>.
\<close>

theorem missing_fields_fail_at_access:
  "(files wa patha = None \<longrightarrow>
      load_profile loada patha wa = Inl FileNotFoundError) \<and>
   (files wb pathb = Some textb \<and> loadb textb = None \<longrightarrow>
      load_profile loadb pathb wb = Inl YAMLError) \<and>
   (files wc pathc = Some textc \<and> loadc textc = Some doc \<longrightarrow>
      load_profile loadc pathc wc = Inr doc) \<and>
   (files wd (profile_path argvd) = None \<longrightarrow>
      snd (main loadd repr argvd wd) = Inl FileNotFoundError \<and>
      files (fst (main loadd repr argvd wd)) = files wd) \<and>
   (files we (profile_path argve) = Some texte \<and> loade texte = None \<longrightarrow>
      snd (main loade repr argve we) = Inl YAMLError \<and>
      files (fst (main loade repr argve we)) = files we) \<and>
   (load_profile loadm (profile_path argvm) wm = Inr docm \<longrightarrow>
      snd (main loadm repr argvm wm) = snd (generate repr docm wm) \<and>
      files (fst (main loadm repr argvm wm)) = files (fst (generate repr docm wm))) \<and>
   (is_dict p1 \<and> field p1 ''os'' = None \<longrightarrow>
      generate_dockerfile repr p1 w = (w, Inl (KeyError ''os''))) \<and>
   (field p2 ''os'' = Some os2 \<and> is_dict os2 \<and> field os2 ''distro'' = None \<longrightarrow>
      generate_dockerfile repr p2 w = (w, Inl (KeyError ''distro''))) \<and>
   (field p3 ''os'' = Some os3 \<and> field os3 ''distro'' = Some distro3 \<and> field os3 ''version'' = None \<longrightarrow>
      generate_dockerfile repr p3 w = (w, Inl (KeyError ''version''))) \<and>
   (field p4 ''os'' = Some os4 \<and> field os4 ''distro'' = Some distro4 \<and>
    field os4 ''version'' = Some version4 \<and> field p4 ''packages'' = None \<longrightarrow>
      generate_dockerfile repr p4 w = (w, Inl (KeyError ''packages''))) \<and>
   (is_dict p5 \<and> field p5 ''profile'' = None \<longrightarrow>
      generate_helm repr p5 w = (w, Inl (KeyError ''profile''))) \<and>
   (field p6 ''profile'' = Some pr6 \<and> is_dict pr6 \<and> field pr6 ''name'' = None \<longrightarrow>
      generate_helm repr p6 w = (w, Inl (KeyError ''name''))) \<and>
   (field p7 ''profile'' = Some pr7 \<and> field pr7 ''name'' = Some name7 \<and>
    field p7 ''os'' = Some os7 \<and> field os7 ''distro'' = Some distro7 \<and>
    field os7 ''version'' = Some version7 \<and> field pr7 ''version'' = None \<longrightarrow>
      generate_helm repr p7 w = (w, Inl (KeyError ''version''))) \<and>
   (load_profile safe_load8 (profile_path argv) w8 = Inr p8 \<and>
    field p8 ''os'' = Some os8 \<and> field os8 ''distro'' = Some distro8 \<and>
    field os8 ''version'' = Some version8 \<and>
    field p8 ''packages'' = Some (PList (map PStr names8)) \<and>
    field p8 ''profile'' = Some pr8 \<and> field pr8 ''name'' = Some name8 \<and>
    field pr8 ''version'' = Some prof_ver8 \<and> field p8 ''network'' = None \<longrightarrow>
      snd (main safe_load8 repr argv w8) = Inl (KeyError ''network'') \<and>
      files (fst (main safe_load8 repr argv w8)) =
        (files w8)(dockerfile_path \<mapsto>
                     dockerfile (py_str repr distro8 @ '':'' @ py_str repr version8)
                       (join_strs '' '' names8),
                   chart_path \<mapsto> chart_yaml (py_str repr name8) (py_str repr prof_ver8),
                   values_path \<mapsto>
                     values_yaml (py_str repr name8) (image_tag repr distro8 name8 prof_ver8),
                   namespace_path \<mapsto> namespace_yaml (py_str repr name8),
                   deployment_path \<mapsto> deployment_yaml,
                   service_path \<mapsto> service_yaml)) \<and>
   (load_profile safe_loadn (profile_path argvn) wn = Inr pn \<and>
    field pn ''os'' = Some osn \<and> field osn ''distro'' = Some distron \<and>
    field osn ''version'' = Some versionn \<and>
    field pn ''packages'' = Some (PList (map PStr namesn)) \<and>
    field pn ''profile'' = Some prn \<and> field prn ''name'' = Some namen \<and>
    field prn ''version'' = Some prof_vern \<longrightarrow>
      snd (main safe_loadn repr argvn wn) = snd (generate_network_policies repr pn namen wn)) \<and>
   (field pg ''network'' = Some (PDict nwg) \<and> network_rules pg = PList (xsg @ rg # ysg) \<and>
    list_all (\<lambda>x. field x ''direction'' \<noteq> None) xsg \<and> is_dict rg \<and> field rg ''direction'' = None \<longrightarrow>
      generate_network_policies repr pg nameg w = (w, Inl (KeyError ''direction''))) \<and>
   (field ph ''network'' = Some (PDict nwh) \<and> network_rules ph = PList (xsh @ rh # ysh) \<and>
    list_all (\<lambda>x. field x ''direction'' \<noteq> None) (xsh @ ysh) \<and>
    list_all (emittable ''from'') (filter (has_direction ''ingress'') xsh) \<and>
    has_direction ''ingress'' rh \<and>
    (case field rh ''from'' of None \<Rightarrow> True | Some q \<Rightarrow> is_dict q) \<and>
    field rh ''protocol'' = None \<longrightarrow>
      generate_network_policies repr ph nameh w = (w, Inl (KeyError ''protocol''))) \<and>
   (field pi ''network'' = Some (PDict nwi) \<and> network_rules pi = PList (xsi @ ri # ysi) \<and>
    list_all (\<lambda>x. field x ''direction'' \<noteq> None) (xsi @ ysi) \<and>
    list_all (emittable ''from'') (filter (has_direction ''ingress'') xsi) \<and>
    has_direction ''ingress'' ri \<and>
    (case field ri ''from'' of None \<Rightarrow> True | Some q \<Rightarrow> is_dict q) \<and>
    field ri ''protocol'' = Some protocoli \<and> field ri ''port'' = None \<longrightarrow>
      generate_network_policies repr pi namei w = (w, Inl (KeyError ''port''))) \<and>
   (field pj ''network'' = Some (PDict nwj) \<and> network_rules pj = PList (xsj @ rj # ysj) \<and>
    list_all (\<lambda>x. field x ''direction'' \<noteq> None) (xsj @ ysj) \<and>
    list_all (emittable ''from'') (filter (has_direction ''ingress'') (xsj @ ysj)) \<and>
    list_all (emittable ''to'') (filter (has_direction ''egress'') xsj) \<and>
    has_direction ''egress'' rj \<and>
    (case field rj ''to'' of None \<Rightarrow> True | Some q \<Rightarrow> is_dict q) \<and>
    field rj ''protocol'' = None \<longrightarrow>
      generate_network_policies repr pj namej w = (w, Inl (KeyError ''protocol''))) \<and>
   (field pk ''network'' = Some (PDict nwk) \<and> network_rules pk = PList (xsk @ rk # ysk) \<and>
    list_all (\<lambda>x. field x ''direction'' \<noteq> None) (xsk @ ysk) \<and>
    list_all (emittable ''from'') (filter (has_direction ''ingress'') (xsk @ ysk)) \<and>
    list_all (emittable ''to'') (filter (has_direction ''egress'') xsk) \<and>
    has_direction ''egress'' rk \<and>
    (case field rk ''to'' of None \<Rightarrow> True | Some q \<Rightarrow> is_dict q) \<and>
    field rk ''protocol'' = Some protocolk \<and> field rk ''port'' = None \<longrightarrow>
      generate_network_policies repr pk namek w = (w, Inl (KeyError ''port''))) \<and>
   (field p9 ''network'' = Some (PDict nw9) \<and> field (PDict nw9) ''rules'' = None \<longrightarrow>
      generate_network_policies repr p9 name9 w =
        (print ''[OK] networkpolicy.yaml generated''
           (write_file networkpolicy_path
              (concat [
                    ''# Policy 1: Default Deny\<newline>'',
                    ''apiVersion: networking.k8s.io/v1\<newline>'',
                    ''kind: NetworkPolicy\<newline>'',
                    ''metadata:\<newline>'',
                    ''  name: default-deny\<newline>'',
                    ''  namespace: {{ .Values.namespace }}\<newline>'',
                    ''spec:\<newline>'',
                    ''  podSelector: {}\<newline>'',
                    ''  policyTypes:\<newline>'',
                    (if truthy (network_value p9 ''default_deny_ingress'')
                      then (if truthy (network_value p9 ''default_deny_egress'')
                            then ''  - Ingress\<newline>  - Egress'' else ''  - Ingress'')
                      else (if truthy (network_value p9 ''default_deny_egress'') then ''  - Egress'' else [])),
                    ''\<newline>'',
                    ''---\<newline>'',
                    ''# Policy 2: Allow exceptions\<newline>'',
                    ''apiVersion: networking.k8s.io/v1\<newline>'',
                    ''kind: NetworkPolicy\<newline>'',
                    ''metadata:\<newline>'',
                    ''  name: {{ .Values.app.name }}-allow\<newline>'',
                    ''  namespace: {{ .Values.namespace }}\<newline>'',
                    ''spec:\<newline>'',
                    ''  podSelector:\<newline>'',
                    ''    matchLabels:\<newline>'',
                    ''      app: {{ .Values.app.name }}\<newline>'',
                    ''  policyTypes:\<newline>'',
                    (if truthy (network_value p9 ''default_deny_ingress'')
                      then (if truthy (network_value p9 ''default_deny_egress'')
                            then ''  - Ingress\<newline>  - Egress'' else ''  - Ingress'')
                      else (if truthy (network_value p9 ''default_deny_egress'') then ''  - Egress'' else [])),
                    ''\<newline>'',
                    ''  ingress: []\<newline>'',
                    ''  egress: []\<newline>'']) w), Inr ()))"
proof -
  have c1: "files wa patha = None \<longrightarrow>
      load_profile loada patha wa = Inl FileNotFoundError"
    by (simp add: load_profile_def)
  have c2: "files wb pathb = Some textb \<and> loadb textb = None \<longrightarrow>
      load_profile loadb pathb wb = Inl YAMLError"
    by (simp add: load_profile_def)
  have c3: "files wc pathc = Some textc \<and> loadc textc = Some doc \<longrightarrow>
      load_profile loadc pathc wc = Inr doc"
    by (simp add: load_profile_def)
  have c4: "files wd (profile_path argvd) = None \<longrightarrow>
      snd (main loadd repr argvd wd) = Inl FileNotFoundError \<and>
      files (fst (main loadd repr argvd wd)) = files wd"
    by (simp add: main_load_fails load_profile_def print_def)
  have c5: "files we (profile_path argve) = Some texte \<and> loade texte = None \<longrightarrow>
      snd (main loade repr argve we) = Inl YAMLError \<and>
      files (fst (main loade repr argve we)) = files we"
    by (simp add: main_load_fails load_profile_def print_def)
  have c6: "load_profile loadm (profile_path argvm) wm = Inr docm \<longrightarrow>
      snd (main loadm repr argvm wm) = snd (generate repr docm wm) \<and>
      files (fst (main loadm repr argvm wm)) = files (fst (generate repr docm wm))"
    by (simp add: main_generate)
  have c7: "is_dict p1 \<and> field p1 ''os'' = None \<longrightarrow>
      generate_dockerfile repr p1 w = (w, Inl (KeyError ''os''))"
    by (simp add: dockerfile_missing_os)
  have c8: "field p2 ''os'' = Some os2 \<and> is_dict os2 \<and> field os2 ''distro'' = None \<longrightarrow>
      generate_dockerfile repr p2 w = (w, Inl (KeyError ''distro''))"
    by (simp add: dockerfile_missing_distro)
  have c9: "field p3 ''os'' = Some os3 \<and> field os3 ''distro'' = Some distro3 \<and> field os3 ''version'' = None \<longrightarrow>
      generate_dockerfile repr p3 w = (w, Inl (KeyError ''version''))"
    by (simp add: dockerfile_missing_version)
  have c10: "field p4 ''os'' = Some os4 \<and> field os4 ''distro'' = Some distro4 \<and>
    field os4 ''version'' = Some version4 \<and> field p4 ''packages'' = None \<longrightarrow>
      generate_dockerfile repr p4 w = (w, Inl (KeyError ''packages''))"
    by (simp add: dockerfile_missing_packages)
  have c11: "is_dict p5 \<and> field p5 ''profile'' = None \<longrightarrow>
      generate_helm repr p5 w = (w, Inl (KeyError ''profile''))"
    by (simp add: helm_missing_profile)
  have c12: "field p6 ''profile'' = Some pr6 \<and> is_dict pr6 \<and> field pr6 ''name'' = None \<longrightarrow>
      generate_helm repr p6 w = (w, Inl (KeyError ''name''))"
    by (simp add: helm_missing_name)
  have c13: "field p7 ''profile'' = Some pr7 \<and> field pr7 ''name'' = Some name7 \<and>
    field p7 ''os'' = Some os7 \<and> field os7 ''distro'' = Some distro7 \<and>
    field os7 ''version'' = Some version7 \<and> field pr7 ''version'' = None \<longrightarrow>
      generate_helm repr p7 w = (w, Inl (KeyError ''version''))"
    by (simp add: helm_missing_version)
  have c14: "load_profile safe_load8 (profile_path argv) w8 = Inr p8 \<and>
    field p8 ''os'' = Some os8 \<and> field os8 ''distro'' = Some distro8 \<and>
    field os8 ''version'' = Some version8 \<and>
    field p8 ''packages'' = Some (PList (map PStr names8)) \<and>
    field p8 ''profile'' = Some pr8 \<and> field pr8 ''name'' = Some name8 \<and>
    field pr8 ''version'' = Some prof_ver8 \<and> field p8 ''network'' = None \<longrightarrow>
      snd (main safe_load8 repr argv w8) = Inl (KeyError ''network'') \<and>
      files (fst (main safe_load8 repr argv w8)) =
        (files w8)(dockerfile_path \<mapsto>
                     dockerfile (py_str repr distro8 @ '':'' @ py_str repr version8)
                       (join_strs '' '' names8),
                   chart_path \<mapsto> chart_yaml (py_str repr name8) (py_str repr prof_ver8),
                   values_path \<mapsto>
                     values_yaml (py_str repr name8) (image_tag repr distro8 name8 prof_ver8),
                   namespace_path \<mapsto> namespace_yaml (py_str repr name8),
                   deployment_path \<mapsto> deployment_yaml,
                   service_path \<mapsto> service_yaml)"
    by (intro impI conjI; elim conjE; erule (8) main_missing_network)
  have c15: "load_profile safe_loadn (profile_path argvn) wn = Inr pn \<and>
    field pn ''os'' = Some osn \<and> field osn ''distro'' = Some distron \<and>
    field osn ''version'' = Some versionn \<and>
    field pn ''packages'' = Some (PList (map PStr namesn)) \<and>
    field pn ''profile'' = Some prn \<and> field prn ''name'' = Some namen \<and>
    field prn ''version'' = Some prof_vern \<longrightarrow>
      snd (main safe_loadn repr argvn wn) = snd (generate_network_policies repr pn namen wn)"
    by (intro impI; elim conjE; erule (7) main_reaches_policies)
  have c16: "field pg ''network'' = Some (PDict nwg) \<and> network_rules pg = PList (xsg @ rg # ysg) \<and>
    list_all (\<lambda>x. field x ''direction'' \<noteq> None) xsg \<and> is_dict rg \<and> field rg ''direction'' = None \<longrightarrow>
      generate_network_policies repr pg nameg w = (w, Inl (KeyError ''direction''))"
    using policies_missing_direction by blast
  have c17: "field ph ''network'' = Some (PDict nwh) \<and> network_rules ph = PList (xsh @ rh # ysh) \<and>
    list_all (\<lambda>x. field x ''direction'' \<noteq> None) (xsh @ ysh) \<and>
    list_all (emittable ''from'') (filter (has_direction ''ingress'') xsh) \<and>
    has_direction ''ingress'' rh \<and>
    (case field rh ''from'' of None \<Rightarrow> True | Some q \<Rightarrow> is_dict q) \<and>
    field rh ''protocol'' = None \<longrightarrow>
      generate_network_policies repr ph nameh w = (w, Inl (KeyError ''protocol''))"
    using policies_ingress_missing_protocol by blast
  have c18: "field pi ''network'' = Some (PDict nwi) \<and> network_rules pi = PList (xsi @ ri # ysi) \<and>
    list_all (\<lambda>x. field x ''direction'' \<noteq> None) (xsi @ ysi) \<and>
    list_all (emittable ''from'') (filter (has_direction ''ingress'') xsi) \<and>
    has_direction ''ingress'' ri \<and>
    (case field ri ''from'' of None \<Rightarrow> True | Some q \<Rightarrow> is_dict q) \<and>
    field ri ''protocol'' = Some protocoli \<and> field ri ''port'' = None \<longrightarrow>
      generate_network_policies repr pi namei w = (w, Inl (KeyError ''port''))"
    using policies_ingress_missing_port by blast
  have c19: "field pj ''network'' = Some (PDict nwj) \<and> network_rules pj = PList (xsj @ rj # ysj) \<and>
    list_all (\<lambda>x. field x ''direction'' \<noteq> None) (xsj @ ysj) \<and>
    list_all (emittable ''from'') (filter (has_direction ''ingress'') (xsj @ ysj)) \<and>
    list_all (emittable ''to'') (filter (has_direction ''egress'') xsj) \<and>
    has_direction ''egress'' rj \<and>
    (case field rj ''to'' of None \<Rightarrow> True | Some q \<Rightarrow> is_dict q) \<and>
    field rj ''protocol'' = None \<longrightarrow>
      generate_network_policies repr pj namej w = (w, Inl (KeyError ''protocol''))"
    using policies_egress_missing_protocol by blast
  have c20: "field pk ''network'' = Some (PDict nwk) \<and> network_rules pk = PList (xsk @ rk # ysk) \<and>
    list_all (\<lambda>x. field x ''direction'' \<noteq> None) (xsk @ ysk) \<and>
    list_all (emittable ''from'') (filter (has_direction ''ingress'') (xsk @ ysk)) \<and>
    list_all (emittable ''to'') (filter (has_direction ''egress'') xsk) \<and>
    has_direction ''egress'' rk \<and>
    (case field rk ''to'' of None \<Rightarrow> True | Some q \<Rightarrow> is_dict q) \<and>
    field rk ''protocol'' = Some protocolk \<and> field rk ''port'' = None \<longrightarrow>
      generate_network_policies repr pk namek w = (w, Inl (KeyError ''port''))"
    using policies_egress_missing_port by blast
  have c21: "field p9 ''network'' = Some (PDict nw9) \<and> field (PDict nw9) ''rules'' = None \<longrightarrow>
      generate_network_policies repr p9 name9 w =
        (print ''[OK] networkpolicy.yaml generated''
           (write_file networkpolicy_path
              (concat [
                    ''# Policy 1: Default Deny\<newline>'',
                    ''apiVersion: networking.k8s.io/v1\<newline>'',
                    ''kind: NetworkPolicy\<newline>'',
                    ''metadata:\<newline>'',
                    ''  name: default-deny\<newline>'',
                    ''  namespace: {{ .Values.namespace }}\<newline>'',
                    ''spec:\<newline>'',
                    ''  podSelector: {}\<newline>'',
                    ''  policyTypes:\<newline>'',
                    (if truthy (network_value p9 ''default_deny_ingress'')
                      then (if truthy (network_value p9 ''default_deny_egress'')
                            then ''  - Ingress\<newline>  - Egress'' else ''  - Ingress'')
                      else (if truthy (network_value p9 ''default_deny_egress'') then ''  - Egress'' else [])),
                    ''\<newline>'',
                    ''---\<newline>'',
                    ''# Policy 2: Allow exceptions\<newline>'',
                    ''apiVersion: networking.k8s.io/v1\<newline>'',
                    ''kind: NetworkPolicy\<newline>'',
                    ''metadata:\<newline>'',
                    ''  name: {{ .Values.app.name }}-allow\<newline>'',
                    ''  namespace: {{ .Values.namespace }}\<newline>'',
                    ''spec:\<newline>'',
                    ''  podSelector:\<newline>'',
                    ''    matchLabels:\<newline>'',
                    ''      app: {{ .Values.app.name }}\<newline>'',
                    ''  policyTypes:\<newline>'',
                    (if truthy (network_value p9 ''default_deny_ingress'')
                      then (if truthy (network_value p9 ''default_deny_egress'')
                            then ''  - Ingress\<newline>  - Egress'' else ''  - Ingress'')
                      else (if truthy (network_value p9 ''default_deny_egress'') then ''  - Egress'' else [])),
                    ''\<newline>'',
                    ''  ingress: []\<newline>'',
                    ''  egress: []\<newline>'']) w), Inr ())"
    using policies_defaults_text by blast
  show ?thesis
    using c1 c2 c3 c4 c5 c6 c7 c8 c9 c10 c11 c12 c13 c14 c15 c16 c17 c18 c19 c20 c21 by (intro conjI)
qed

theorem missing_fields_fail_at_access_witness:
  "load_profile minimal_loader ''profile.yaml'' empty_world = Inl FileNotFoundError \<and>
   load_profile rejecting_loader ''profile.yaml'' fresh_world = Inl YAMLError \<and>
   load_profile minimal_loader ''profile.yaml'' fresh_world = Inr minimal_profile \<and>
   snd (main minimal_loader plain_repr [''generate.py''] empty_world) = Inl FileNotFoundError \<and>
   files (fst (main minimal_loader plain_repr [''generate.py''] empty_world)) = Map.empty \<and>
   snd (main rejecting_loader plain_repr [''generate.py''] fresh_world) = Inl YAMLError \<and>
   files (fst (main rejecting_loader plain_repr [''generate.py''] fresh_world)) =
     [''profile.yaml'' \<mapsto> ''profile text''] \<and>
   snd (main minimal_loader plain_repr [''generate.py''] fresh_world) =
     snd (generate plain_repr minimal_profile fresh_world) \<and>
   files (fst (main minimal_loader plain_repr [''generate.py''] fresh_world)) =
     files (fst (generate plain_repr minimal_profile fresh_world)) \<and>
   generate_dockerfile plain_repr (PDict []) empty_world = (empty_world, Inl (KeyError ''os'')) \<and>
   generate_dockerfile plain_repr (PDict [(''os'', PDict [])]) empty_world =
     (empty_world, Inl (KeyError ''distro'')) \<and>
   generate_dockerfile plain_repr (PDict [(''os'', PDict [(''distro'', PStr ''ubuntu'')])]) empty_world =
     (empty_world, Inl (KeyError ''version'')) \<and>
   generate_dockerfile plain_repr
     (PDict [(''os'', PDict [(''distro'', PStr ''ubuntu''), (''version'', PStr ''22.04'')])]) empty_world =
     (empty_world, Inl (KeyError ''packages'')) \<and>
   generate_helm plain_repr (PDict []) empty_world = (empty_world, Inl (KeyError ''profile'')) \<and>
   generate_helm plain_repr (PDict [(''profile'', PDict [])]) empty_world =
     (empty_world, Inl (KeyError ''name'')) \<and>
   generate_helm plain_repr
     (PDict [(''profile'', PDict [(''name'', PStr ''worker'')]),
             (''os'', PDict [(''distro'', PStr ''ubuntu''), (''version'', PStr ''22.04'')])]) empty_world =
     (empty_world, Inl (KeyError ''version'')) \<and>
   snd (main networkless_loader plain_repr [''generate.py''] fresh_world) = Inl (KeyError ''network'') \<and>
   files (fst (main networkless_loader plain_repr [''generate.py''] fresh_world)) deployment_path =
     Some deployment_yaml \<and>
   files (fst (main networkless_loader plain_repr [''generate.py''] fresh_world)) networkpolicy_path = None \<and>
   snd (main protocolless_loader plain_repr [''generate.py''] fresh_world) = Inl (KeyError ''protocol'') \<and>
   generate_network_policies plain_repr
     (example_profile (PBool True) (PBool False)
        (example_rules @
         PDict [(''port'', PInt 80)] # [nameless_rule])) (PStr ''worker'') empty_world =
     (empty_world, Inl (KeyError ''direction'')) \<and>
   generate_network_policies plain_repr
     (example_profile (PBool True) (PBool False)
        (example_rules @
         PDict [(''direction'', PStr ''ingress''), (''from'', PDict [(''namespace'', PStr ''qa'')])] # [nameless_rule])) (PStr ''worker'') empty_world =
     (empty_world, Inl (KeyError ''protocol'')) \<and>
   generate_network_policies plain_repr
     (example_profile (PBool True) (PBool False)
        (example_rules @
         PDict [(''direction'', PStr ''ingress''), (''protocol'', PStr ''TCP'')] # [nameless_rule])) (PStr ''worker'') empty_world =
     (empty_world, Inl (KeyError ''port'')) \<and>
   generate_network_policies plain_repr
     (example_profile (PBool True) (PBool False)
        (example_rules @
         PDict [(''direction'', PStr ''egress''), (''port'', PInt 53)] # [nameless_rule])) (PStr ''worker'') empty_world =
     (empty_world, Inl (KeyError ''protocol'')) \<and>
   generate_network_policies plain_repr
     (example_profile (PBool True) (PBool False)
        (example_rules @
         PDict [(''direction'', PStr ''egress''), (''to'', PDict []), (''protocol'', PStr ''UDP'')] # [nameless_rule])) (PStr ''worker'') empty_world =
     (empty_world, Inl (KeyError ''port'')) \<and>
   generate_network_policies plain_repr minimal_profile (PStr ''worker'') empty_world =
     (\<lparr>files = [networkpolicy_path \<mapsto>
        concat [
          ''# Policy 1: Default Deny\<newline>'',
          ''apiVersion: networking.k8s.io/v1\<newline>'',
          ''kind: NetworkPolicy\<newline>'',
          ''metadata:\<newline>'',
          ''  name: default-deny\<newline>'',
          ''  namespace: {{ .Values.namespace }}\<newline>'',
          ''spec:\<newline>'',
          ''  podSelector: {}\<newline>'',
          ''  policyTypes:\<newline>'',
          ''\<newline>'',
          ''---\<newline>'',
          ''# Policy 2: Allow exceptions\<newline>'',
          ''apiVersion: networking.k8s.io/v1\<newline>'',
          ''kind: NetworkPolicy\<newline>'',
          ''metadata:\<newline>'',
          ''  name: {{ .Values.app.name }}-allow\<newline>'',
          ''  namespace: {{ .Values.namespace }}\<newline>'',
          ''spec:\<newline>'',
          ''  podSelector:\<newline>'',
          ''    matchLabels:\<newline>'',
          ''      app: {{ .Values.app.name }}\<newline>'',
          ''  policyTypes:\<newline>'',
          ''\<newline>'',
          ''  ingress: []\<newline>'',
          ''  egress: []\<newline>'']],
       stdout = [''[OK] networkpolicy.yaml generated'']\<rparr>, Inr ())"
  using missing_fields_fail_at_access [where wa = empty_world and patha = "''profile.yaml''" and loada = minimal_loader
      and wb = fresh_world and pathb = "''profile.yaml''" and textb = "''profile text''"
      and loadb = rejecting_loader
      and wc = fresh_world and pathc = "''profile.yaml''" and textc = "''profile text''"
      and loadc = minimal_loader and doc = minimal_profile
      and wd = empty_world and loadd = minimal_loader and argvd = "[''generate.py'']"
      and we = fresh_world and loade = rejecting_loader and argve = "[''generate.py'']"
      and texte = "''profile text''"
      and wm = fresh_world and loadm = minimal_loader and argvm = "[''generate.py'']"
      and docm = minimal_profile
      and repr = plain_repr and w = empty_world
      and ?p1.0 = "PDict []"
      and ?p2.0 = "PDict [(''os'', PDict [])]" and ?os2.0 = "PDict []"
      and ?p3.0 = "PDict [(''os'', PDict [(''distro'', PStr ''ubuntu'')])]"
      and ?os3.0 = "PDict [(''distro'', PStr ''ubuntu'')]" and ?distro3.0 = "PStr ''ubuntu''"
      and ?p4.0 = "PDict [(''os'', PDict [(''distro'', PStr ''ubuntu''), (''version'', PStr ''22.04'')])]"
      and ?os4.0 = "PDict [(''distro'', PStr ''ubuntu''), (''version'', PStr ''22.04'')]"
      and ?distro4.0 = "PStr ''ubuntu''" and ?version4.0 = "PStr ''22.04''"
      and ?p5.0 = "PDict []"
      and ?p6.0 = "PDict [(''profile'', PDict [])]" and ?pr6.0 = "PDict []"
      and ?p7.0 = "PDict [(''profile'', PDict [(''name'', PStr ''worker'')]),
             (''os'', PDict [(''distro'', PStr ''ubuntu''), (''version'', PStr ''22.04'')])]"
      and ?pr7.0 = "PDict [(''name'', PStr ''worker'')]" and ?name7.0 = "PStr ''worker''"
      and ?os7.0 = "PDict [(''distro'', PStr ''ubuntu''), (''version'', PStr ''22.04'')]"
      and ?distro7.0 = "PStr ''ubuntu''" and ?version7.0 = "PStr ''22.04''"
      and ?safe_load8.0 = networkless_loader and argv = "[''generate.py'']" and ?w8.0 = fresh_world
      and ?p8.0 = networkless_profile
      and ?os8.0 = "PDict [(''distro'', PStr ''ubuntu''), (''version'', PStr ''22.04'')]"
      and ?distro8.0 = "PStr ''ubuntu''" and ?version8.0 = "PStr ''22.04''" and ?names8.0 = "[]"
      and ?pr8.0 = "PDict [(''name'', PStr ''worker''), (''version'', PStr ''1'')]"
      and ?name8.0 = "PStr ''worker''" and ?prof_ver8.0 = "PStr ''1''"
      and safe_loadn = protocolless_loader and argvn = "[''generate.py'']" and wn = fresh_world
      and pn = protocolless_profile
      and osn = "PDict [(''distro'', PStr ''ubuntu''), (''version'', PStr ''22.04'')]"
      and distron = "PStr ''ubuntu''" and versionn = "PStr ''22.04''" and namesn = "[''curl'']"
      and prn = "PDict [(''name'', PStr ''worker''), (''version'', PStr ''1'')]"
      and namen = "PStr ''worker''" and prof_vern = "PStr ''1''"
      and pg = "example_profile (PBool True) (PBool False)
        (example_rules @
         PDict [(''port'', PInt 80)] # [nameless_rule])"
      and nwg = "example_network (PBool True) (PBool False) (example_rules @
         PDict [(''port'', PInt 80)] # [nameless_rule])"
      and xsg = example_rules and ysg = "[nameless_rule]" and nameg = "PStr ''worker''"
      and rg = "PDict [(''port'', PInt 80)]"
      and ph = "example_profile (PBool True) (PBool False)
        (example_rules @
         PDict [(''direction'', PStr ''ingress''), (''from'', PDict [(''namespace'', PStr ''qa'')])] # [nameless_rule])"
      and nwh = "example_network (PBool True) (PBool False) (example_rules @
         PDict [(''direction'', PStr ''ingress''), (''from'', PDict [(''namespace'', PStr ''qa'')])] # [nameless_rule])"
      and xsh = example_rules and ysh = "[nameless_rule]" and nameh = "PStr ''worker''"
      and rh = "PDict [(''direction'', PStr ''ingress''), (''from'', PDict [(''namespace'', PStr ''qa'')])]"
      and pi = "example_profile (PBool True) (PBool False)
        (example_rules @
         PDict [(''direction'', PStr ''ingress''), (''protocol'', PStr ''TCP'')] # [nameless_rule])"
      and nwi = "example_network (PBool True) (PBool False) (example_rules @
         PDict [(''direction'', PStr ''ingress''), (''protocol'', PStr ''TCP'')] # [nameless_rule])"
      and xsi = example_rules and ysi = "[nameless_rule]" and namei = "PStr ''worker''" and protocoli = "PStr ''TCP''"
      and ri = "PDict [(''direction'', PStr ''ingress''), (''protocol'', PStr ''TCP'')]"
      and pj = "example_profile (PBool True) (PBool False)
        (example_rules @
         PDict [(''direction'', PStr ''egress''), (''port'', PInt 53)] # [nameless_rule])"
      and nwj = "example_network (PBool True) (PBool False) (example_rules @
         PDict [(''direction'', PStr ''egress''), (''port'', PInt 53)] # [nameless_rule])"
      and xsj = example_rules and ysj = "[nameless_rule]" and namej = "PStr ''worker''"
      and rj = "PDict [(''direction'', PStr ''egress''), (''port'', PInt 53)]"
      and pk = "example_profile (PBool True) (PBool False)
        (example_rules @
         PDict [(''direction'', PStr ''egress''), (''to'', PDict []), (''protocol'', PStr ''UDP'')] # [nameless_rule])"
      and nwk = "example_network (PBool True) (PBool False) (example_rules @
         PDict [(''direction'', PStr ''egress''), (''to'', PDict []), (''protocol'', PStr ''UDP'')] # [nameless_rule])"
      and xsk = example_rules and ysk = "[nameless_rule]" and namek = "PStr ''worker''" and protocolk = "PStr ''UDP''"
      and rk = "PDict [(''direction'', PStr ''egress''), (''to'', PDict []), (''protocol'', PStr ''UDP'')]"
      and ?p9.0 = minimal_profile and ?nw9.0 = "[]" and ?name9.0 = "PStr ''worker''"]
    conjunct1 [OF conjunct2 [OF conjunct2 [OF conjunct2 [OF conjunct2 [OF conjunct2 [OF conjunct2 [OF conjunct2 [OF conjunct2 [OF conjunct2 [OF conjunct2 [OF conjunct2 [OF conjunct2 [OF conjunct2 [OF conjunct2 [OF conjunct2 [OF conjunct2 [OF 
      missing_fields_fail_at_access [where repr = plain_repr and w = fresh_world
      and ph = "example_profile (PBool True) (PBool False)
        (example_rules @
         PDict [(''direction'', PStr ''ingress''), (''from'', PDict [(''namespace'', PStr ''qa'')])] # [nameless_rule])"
      and nwh = "example_network (PBool True) (PBool False) (example_rules @
         PDict [(''direction'', PStr ''ingress''), (''from'', PDict [(''namespace'', PStr ''qa'')])] # [nameless_rule])"
      and xsh = example_rules and ysh = "[nameless_rule]" and nameh = "PStr ''worker''"
      and rh = "PDict [(''direction'', PStr ''ingress''), (''from'', PDict [(''namespace'', PStr ''qa'')])]"]]]]]]]]]]]]]]]]]]
  by (simp add: empty_world_def fresh_world_def minimal_loader_def rejecting_loader_def
        networkless_loader_def networkless_profile_def minimal_profile_def profile_path_def
        protocolless_loader_def protocolless_profile_def
        load_profile_def network_value_def network_rules_def example_profile_def
        example_network_def example_rules_def nameless_rule_def has_direction_def emittable_def
        print_def write_file_def
        dockerfile_path_def chart_path_def values_path_def namespace_path_def deployment_path_def
        service_path_def networkpolicy_path_def)

end
